theory Spec2Isabelle
  imports Complex_Main
begin

section \<open>Quadrature-based deep Gaussian processes: \<open>predictive_deep_gp.py\<close>\<close>

text \<open>
  A shallow embedding of \<open>gpytorch/models/deep_gps/predictive_deep_gp.py\<close>.
  Tensors hold real numbers (float32/float64 rounding, NaN and the infinities are not
  modelled), every Python exception is a value of \<open>error\<close>, and the two interpreter
  switches the file depends on are explicit: whether \<open>assert\<close> statements run
  (Python's \<open>__debug__\<close>, false under \<open>python -O\<close>) and gpytorch's
  \<open>settings.debug.on()\<close>.
\<close>

subsection \<open>Exceptions\<close>

datatype error =
    AssertionError
  | AttributeError string
  | ValueError string
  | RuntimeError string
  | IndexError string
  | TypeError string

definition ebind :: "error + 'a \<Rightarrow> ('a \<Rightarrow> error + 'b) \<Rightarrow> error + 'b" where
  "ebind m f = (case m of Inl e \<Rightarrow> Inl e | Inr x \<Rightarrow> f x)"

text \<open>A list comprehension whose body may raise: the first exception ends it.\<close>

fun emap :: "('a \<Rightarrow> error + 'b) \<Rightarrow> 'a list \<Rightarrow> error + 'b list" where
  "emap f [] = Inr []"
| "emap f (x # xs) = ebind (f x) (\<lambda>y. ebind (emap f xs) (\<lambda>ys. Inr (y # ys)))"

record env =
  py_assertions :: bool
  settings_debug :: bool

subsection \<open>Tensors\<close>

text \<open>
  A tensor is a nested array: \<open>Sc x\<close> is a 0-d tensor, \<open>Nd xs\<close> an array of
  sub-tensors along the leading axis. A 1-d tensor of size 0 is \<open>Nd []\<close>; a tensor with a
  zero-size axis followed by further axes has no representation of its own here (it is
  \<open>Nd []\<close> as well).
\<close>

datatype tensor = Sc real | Nd "tensor list"

fun ndim :: "tensor \<Rightarrow> nat" where
  "ndim (Sc _) = 0"
| "ndim (Nd []) = 1"
| "ndim (Nd (x # _)) = Suc (ndim x)"

fun shape :: "tensor \<Rightarrow> nat list" where
  "shape (Sc _) = []"
| "shape (Nd []) = [0]"
| "shape (Nd (x # xs)) = Suc (length xs) # shape x"

fun scalar :: "tensor \<Rightarrow> real" where
  "scalar (Sc x) = x"
| "scalar (Nd _) = 0"

fun children :: "tensor \<Rightarrow> tensor list" where
  "children (Sc _) = []"
| "children (Nd xs) = xs"

definition vec :: "real list \<Rightarrow> tensor" where
  "vec xs = Nd (map Sc xs)"

definition mat :: "real list list \<Rightarrow> tensor" where
  "mat rows = Nd (map vec rows)"

definition ten3 :: "real list list list \<Rightarrow> tensor" where
  "ten3 ms = Nd (map mat ms)"

text \<open>
  Element-wise functions (\<open>.sqrt()\<close>, \<open>0.5 * x\<close>). The square root of a negative entry
  is NaN in torch; the model is faithful for non-negative variances only.
\<close>

fun tmap :: "(real \<Rightarrow> real) \<Rightarrow> tensor \<Rightarrow> tensor" where
  "tmap f (Sc x) = Sc (f x)"
| "tmap f (Nd xs) = Nd (map (tmap f) xs)"

text \<open>
  \<open>x.unsqueeze(d)\<close>: a new axis of size 1 at position \<open>d\<close>, where a negative \<open>d\<close>
  counts from the end of the result's shape.
\<close>

fun unsqueeze_at :: "nat \<Rightarrow> tensor \<Rightarrow> tensor" where
  "unsqueeze_at 0 t = Nd [t]"
| "unsqueeze_at (Suc p) (Nd xs) = Nd (map (unsqueeze_at p) xs)"
| "unsqueeze_at (Suc p) (Sc x) = Sc x"

definition unsqueeze :: "int \<Rightarrow> tensor \<Rightarrow> error + tensor" where
  "unsqueeze d t =
     (let r = int (ndim t); p = (if d < 0 then d + r + 1 else d)
      in if p < 0 \<or> r < p then Inl (IndexError ''Dimension out of range'')
         else Inr (unsqueeze_at (nat p) t))"

text \<open>\<open>x.size(d)\<close>.\<close>

definition size_dim :: "int \<Rightarrow> tensor \<Rightarrow> error + nat" where
  "size_dim d t =
     (let r = int (ndim t); p = (if d < 0 then d + r else d)
      in if p < 0 \<or> r \<le> p then Inl (IndexError ''Dimension out of range'')
         else Inr (shape t ! nat p))"

text \<open>
  Broadcasting: the shapes are aligned at their last axes; two sizes are compatible when
  they are equal or one of them is 1.
\<close>

fun broadcast_rev :: "nat list \<Rightarrow> nat list \<Rightarrow> nat list option" where
  "broadcast_rev [] ys = Some ys"
| "broadcast_rev (x # xs) [] = Some (x # xs)"
| "broadcast_rev (x # xs) (y # ys) =
     (if x = y \<or> y = 1 then map_option (Cons x) (broadcast_rev xs ys)
      else if x = 1 then map_option (Cons y) (broadcast_rev xs ys)
      else None)"

definition broadcast_shapes :: "nat list \<Rightarrow> nat list \<Rightarrow> nat list option" where
  "broadcast_shapes a b = map_option rev (broadcast_rev (rev a) (rev b))"

function bop :: "(real \<Rightarrow> real \<Rightarrow> real) \<Rightarrow> tensor \<Rightarrow> tensor \<Rightarrow> tensor" where
  "bop f (Sc a) (Sc b) = Sc (f a b)"
| "bop f (Sc a) (Nd ys) = Nd (map (bop f (Sc a)) ys)"
| "bop f (Nd xs) (Sc b) = Nd (map (\<lambda>x. bop f x (Sc b)) xs)"
| "bop f (Nd xs) (Nd ys) =
     (if ndim (Nd xs) < ndim (Nd ys) then Nd (map (bop f (Nd xs)) ys)
      else if ndim (Nd ys) < ndim (Nd xs) then Nd (map (\<lambda>x. bop f x (Nd ys)) xs)
      else if length xs = length ys then Nd (map (\<lambda>(x, y). bop f x y) (zip xs ys))
      else if length xs = 1 then Nd (map (bop f (hd xs)) ys)
      else if length ys = 1 then Nd (map (\<lambda>x. bop f x (hd ys)) xs)
      else Nd [])"
  by pat_completeness auto

lemma size_child_le: "x \<in> set xs \<Longrightarrow> size (x::tensor) \<le> size_list size xs"
  by (induction xs) auto

lemma size_hd_le: "length xs = Suc 0 \<Longrightarrow> size (hd xs :: tensor) \<le> size_list size xs"
  by (cases xs) auto

termination bop
proof (relation "measure (\<lambda>(f, a, b). size a + size b)", goal_cases)
  case 1 show ?case by simp
next
  case (2 f a ys x) then show ?case using size_child_le[of x ys] by simp
next
  case (3 f xs b x) then show ?case using size_child_le[of x xs] by simp
next
  case (4 f xs ys x) then show ?case using size_child_le[of x ys] by simp
next
  case (5 f xs ys x) then show ?case using size_child_le[of x xs] by simp
next
  case (6 f xs ys z x y)
  then have "x \<in> set xs" "y \<in> set ys" by (auto dest: set_zip_leftD set_zip_rightD)
  then show ?case using size_child_le[of x xs] size_child_le[of y ys] by simp
next
  case (7 f xs ys x) then show ?case using size_child_le[of x ys] size_hd_le[of xs] by simp
next
  case (8 f xs ys x) then show ?case using size_child_le[of x xs] size_hd_le[of ys] by simp
qed

text \<open>\<open>a + b\<close>, \<open>a - b\<close>, \<open>a * b\<close> on tensors: the shape check, then the values.\<close>

definition tensor_op :: "(real \<Rightarrow> real \<Rightarrow> real) \<Rightarrow> tensor \<Rightarrow> tensor \<Rightarrow> error + tensor" where
  "tensor_op f a b =
     (case broadcast_shapes (shape a) (shape b) of
        None \<Rightarrow> Inl (RuntimeError ''The size of tensor a must match the size of tensor b'')
      | Some _ \<Rightarrow> Inr (bop f a b))"

text \<open>
  Reductions along the \<open>k\<close>-th axis from the end (\<open>dim=-k\<close>): \<open>combine g ts\<close> applies
  \<open>g\<close> position by position to the sub-tensors \<open>ts\<close> of that axis.
\<close>

function combine :: "(real list \<Rightarrow> real) \<Rightarrow> tensor list \<Rightarrow> tensor" where
  "combine g [] = Sc (g [])"
| "combine g (Sc x # ts) = Sc (g (map scalar (Sc x # ts)))"
| "combine g (Nd ys # ts) =
     Nd (map (\<lambda>j. combine g (map (\<lambda>t. children t ! j) (Nd ys # ts))) [0..<length ys])"
  by pat_completeness auto

termination combine
proof (relation "measure (\<lambda>(g, ts). size (hd ts))", goal_cases)
  case 1 show ?case by simp
next
  case (2 g ys ts j)
  then have "ys ! j \<in> set ys" by simp
  then show ?case using size_child_le[of "ys ! j" ys] by simp
qed

fun reduce_neg :: "nat \<Rightarrow> (real list \<Rightarrow> real) \<Rightarrow> tensor \<Rightarrow> tensor" where
  "reduce_neg k g (Sc x) = Sc x"
| "reduce_neg k g (Nd xs) =
     (if ndim (Nd xs) = k then combine g xs else Nd (map (reduce_neg k g) xs))"

definition reduce_dim :: "nat \<Rightarrow> (real list \<Rightarrow> real) \<Rightarrow> tensor \<Rightarrow> error + tensor" where
  "reduce_dim k g t =
     (if max 1 (ndim t) < k then Inl (IndexError ''Dimension out of range'')
      else Inr (reduce_neg k g t))"

text \<open>
  \<open>x.logsumexp(dim=-k)\<close> over the reals. Over an empty axis torch returns \<open>-inf\<close> (old
  versions refuse the reduction), which the reals do not have; the model returns
  \<open>ln 0\<close> there.
\<close>

definition lse :: "real list \<Rightarrow> real" where
  "lse xs = ln (sum_list (map exp xs))"

definition logsumexp :: "nat \<Rightarrow> tensor \<Rightarrow> error + tensor" where
  "logsumexp k t = reduce_dim k lse t"

definition tsum_dim :: "nat \<Rightarrow> tensor \<Rightarrow> error + tensor" where
  "tsum_dim k t = reduce_dim k sum_list t"

text \<open>\<open>x.sum()\<close>: the sum of all entries.\<close>

fun tsum :: "tensor \<Rightarrow> real" where
  "tsum (Sc x) = x"
| "tsum (Nd xs) = sum_list (map tsum xs)"

text \<open>\<open>x.flip(dims=[0])\<close> and \<open>x.t()\<close>.\<close>

fun flip0 :: "tensor \<Rightarrow> tensor" where
  "flip0 (Sc x) = Sc x"
| "flip0 (Nd xs) = Nd (rev xs)"

definition t2 :: "tensor \<Rightarrow> error + tensor" where
  "t2 x =
     (if ndim x < 2 then Inr x
      else if ndim x = 2 then
        Inr (Nd (map (\<lambda>j. Nd (map (\<lambda>r. children r ! j) (children x)))
                  [0..<length (children (hd (children x)))]))
      else Inl (RuntimeError ''t() expects a tensor with <= 2 dimensions''))"

text \<open>Iterating over a tensor yields its sub-tensors; a 0-d tensor cannot be iterated.\<close>

definition iterate :: "tensor \<Rightarrow> error + tensor list" where
  "iterate t = (case t of Sc _ \<Rightarrow> Inl (TypeError ''iteration over a 0-d tensor'')
                | Nd xs \<Rightarrow> Inr xs)"

text \<open>
  \<open>torch.cat(ts)\<close> (along axis 0), \<open>torch.cat(ts, dim=-1)\<close> and \<open>torch.stack(ts)\<close>.
  All tensors must agree in every axis but the one concatenated (torch's legacy exception
  for empty 1-d tensors is left out).
\<close>

definition cat0 :: "tensor list \<Rightarrow> error + tensor" where
  "cat0 ts =
     (if ts = [] then Inl (RuntimeError ''expected a non-empty list of Tensors'')
      else if list_ex (\<lambda>t. ndim t = 0) ts
        then Inl (RuntimeError ''zero-dimensional tensor cannot be concatenated'')
      else if list_all (\<lambda>t. tl (shape t) = tl (shape (hd ts))) ts
        then Inr (Nd (concat (map children ts)))
      else Inl (RuntimeError ''Sizes of tensors must match except in dimension 0''))"

function cat_last2 :: "tensor \<Rightarrow> tensor \<Rightarrow> tensor" where
  "cat_last2 (Sc x) b = Sc x"
| "cat_last2 (Nd xs) b =
     (if ndim (Nd xs) \<le> 1 then Nd (xs @ children b)
      else Nd (map (\<lambda>(x, y). cat_last2 x y) (zip xs (children b))))"
  by pat_completeness auto

termination cat_last2
proof (relation "measure (\<lambda>(a, b). size a)", goal_cases)
  case 1 show ?case by simp
next
  case (2 xs b z x y)
  then have "x \<in> set xs" by (auto dest: set_zip_leftD)
  then show ?case using size_child_le[of x xs] by simp
qed

definition cat_last :: "tensor list \<Rightarrow> error + tensor" where
  "cat_last ts =
     (if ts = [] then Inl (RuntimeError ''expected a non-empty list of Tensors'')
      else if list_ex (\<lambda>t. ndim t = 0) ts
        then Inl (RuntimeError ''zero-dimensional tensor cannot be concatenated'')
      else if list_all (\<lambda>t. butlast (shape t) = butlast (shape (hd ts))) ts
        then Inr (foldl cat_last2 (hd ts) (tl ts))
      else Inl (RuntimeError ''Sizes of tensors must match except in dimension -1''))"

definition stack :: "tensor list \<Rightarrow> error + tensor" where
  "stack ts =
     (if ts = [] then Inl (RuntimeError ''stack expects a non-empty TensorList'')
      else if list_all (\<lambda>t. shape t = shape (hd ts)) ts then Inr (Nd ts)
      else Inl (RuntimeError ''stack expects each tensor to be equal size''))"

text \<open>
  \<open>inp.unsqueeze(0).expand(n, *inp.shape)\<close>: \<open>n\<close> copies of \<open>inp\<close> along a new leading
  axis; \<open>-1\<close> keeps the size 1 of the new axis, any other negative size is refused.
\<close>

definition expand_leading :: "int \<Rightarrow> tensor \<Rightarrow> error + tensor" where
  "expand_leading n inp =
     (if n = - 1 then Inr (Nd [inp])
      else if n < 0 then Inl (RuntimeError ''The expanded size of the tensor is not allowed'')
      else Inr (Nd (replicate (nat n) inp)))"

text \<open>\<open>x.repeat(1, T)\<close> on a 2-d tensor: every row is repeated \<open>T\<close> times along the last axis.\<close>

definition repeat_1 :: "nat \<Rightarrow> tensor \<Rightarrow> tensor" where
  "repeat_1 T x = Nd (map (\<lambda>r. Nd (concat (replicate T (children r)))) (children x))"

subsection \<open>The external numerical sources\<close>

text \<open>
  \<open>numpy.polynomial.hermite.hermgauss\<close> is not part of the repository: the abscissae and
  weights it returns for a degree are the parameter \<open>gh\<close>. It raises for a degree that is
  not positive. \<open>torch.randn\<close> draws from the parameter \<open>rnd\<close>, a sequence of samples.
\<close>

definition hermgauss :: "(nat \<Rightarrow> real list \<times> real list) \<Rightarrow> int \<Rightarrow> error + real list \<times> real list" where
  "hermgauss gh deg =
     (if deg \<le> 0 then Inl (ValueError ''deg must be a positive integer'')
      else Inr (gh (nat deg)))"

definition randn1 :: "(nat \<Rightarrow> real) \<Rightarrow> int \<Rightarrow> error + tensor" where
  "randn1 rnd n =
     (if n < 0 then Inl (RuntimeError ''Trying to create tensor with negative dimension'')
      else Inr (vec (map rnd [0..<nat n])))"

definition randn2 :: "(nat \<Rightarrow> real) \<Rightarrow> int \<Rightarrow> nat \<Rightarrow> error + tensor" where
  "randn2 rnd n m =
     (if n < 0 then Inl (RuntimeError ''Trying to create tensor with negative dimension'')
      else Inr (mat (map (\<lambda>i. map (\<lambda>j. rnd (i * m + j)) [0..<m]) [0..<nat n])))"

subsection \<open>Attribute access on a module\<close>

text \<open>
  All classes of the file are \<open>torch.nn.Module\<close>s. An attribute that is neither set on the
  object nor registered raises \<open>AttributeError\<close> naming it. When the getter of a property
  raises \<open>AttributeError\<close>, Python falls back to the module's \<open>__getattr__\<close> for the
  property's own name, so the caller sees an \<open>AttributeError\<close> naming the property.
\<close>

definition property_read :: "string \<Rightarrow> error + 'a \<Rightarrow> error + 'a" where
  "property_read name m =
     (case m of Inl (AttributeError _) \<Rightarrow> Inl (AttributeError name) | _ \<Rightarrow> m)"

subsection \<open>\<open>AbstractPredictiveDeepGPLayer\<close>\<close>

record layer =
  input_dims :: nat
  output_dims :: "nat option"
  grid_strategy :: string
  num_sample_sites :: int
  sample_site_dims :: nat
  xi :: "tensor option"

text \<open>
  \<open>torch.from_numpy(xi).float().unsqueeze(-1).repeat(1, self.sample_site_dims)\<close>: the
  abscissae as a column, repeated across the sample-site dimensions.
\<close>

definition replicate_abscissae :: "real list \<Rightarrow> nat \<Rightarrow> error + tensor" where
  "replicate_abscissae x T = ebind (unsqueeze (- 1) (vec x)) (\<lambda>u. Inr (repeat_1 T u))"

text \<open>
  \<open>__init__\<close> (the base class's constructor stores \<open>input_dims\<close> and \<open>output_dims\<close>).
  With assertions stripped a strategy outside the three is accepted and, unless \<open>xi\<close> is
  passed in, leaves the attribute \<open>xi\<close> unset.
\<close>

definition layer_init ::
  "env \<Rightarrow> (nat \<Rightarrow> real list \<times> real list) \<Rightarrow> (nat \<Rightarrow> real) \<Rightarrow>
   nat \<Rightarrow> nat option \<Rightarrow> int \<Rightarrow> string \<Rightarrow> tensor option \<Rightarrow> nat option \<Rightarrow> error + layer" where
  "layer_init e gh rnd in_dims out_dims sites strategy xi_arg site_dims =
     (if py_assertions e \<and> strategy \<notin> set [''flipgrid'', ''freegrid'', ''freeform'']
      then Inl AssertionError
      else
        let T = (case site_dims of None \<Rightarrow> in_dims | Some d \<Rightarrow> d);
            l = \<lparr>input_dims = in_dims, output_dims = out_dims, grid_strategy = strategy,
                 num_sample_sites = sites, sample_site_dims = T, xi = None\<rparr>
        in case xi_arg of
             Some x \<Rightarrow> Inr (l\<lparr>xi := Some x\<rparr>)
           | None \<Rightarrow>
               if strategy = ''freegrid'' then
                 ebind (hermgauss gh sites) (\<lambda>(x, w).
                 ebind (replicate_abscissae x T) (\<lambda>p. Inr (l\<lparr>xi := Some p\<rparr>)))
               else if strategy = ''flipgrid'' then
                 ebind (hermgauss gh sites) (\<lambda>(x, w).
                 ebind (replicate_abscissae x T) (\<lambda>p.
                   Inr (l\<lparr>xi := Some (tmap (\<lambda>v. 0.5 * v) p)\<rparr>)))
               else if strategy = ''freeform'' then
                 ebind (randn2 rnd sites T) (\<lambda>p. Inr (l\<lparr>xi := Some p\<rparr>))
               else Inr l)"

definition get_xi :: "layer \<Rightarrow> error + tensor" where
  "get_xi l = (case xi l of None \<Rightarrow> Inl (AttributeError ''xi'') | Some x \<Rightarrow> Inr x)"

text \<open>
  \<open>torch.stack([torch.cat([p.unsqueeze(-1) for p in xi]) for xi in product(*xi.t())])\<close>:
  \<open>product\<close> reads the rows of the transposed tensor, one per sample-site dimension, and
  yields the tuples of their entries in lexicographic order; each tuple becomes one point.
\<close>

definition grid_points :: "tensor \<Rightarrow> error + tensor" where
  "grid_points x =
     ebind (t2 x) (\<lambda>xt.
     ebind (iterate xt) (\<lambda>dims.
     ebind (emap iterate dims) (\<lambda>axes.
     ebind (emap (\<lambda>tup. ebind (emap (unsqueeze (- 1)) tup) cat0) (product_lists axes))
       stack)))"

text \<open>
  The assertion of lines 68 and 73. When assertions run, its first operand evaluates
  \<open>res.size(-2)\<close> and then the arguments of \<open>math.pow\<close>, among them
  \<open>self.self.sample_site_dims\<close>: the layer has no attribute \<open>self\<close>, so the evaluation
  raises before anything is compared.
\<close>

definition grid_size_assert :: "env \<Rightarrow> layer \<Rightarrow> tensor \<Rightarrow> error + unit" where
  "grid_size_assert e l res =
     (if py_assertions e
      then ebind (size_dim (- 2) res) (\<lambda>n. Inl (AttributeError ''self''))
      else Inr ())"

text \<open>The getter of the property \<open>quad_grid\<close>; \<open>None\<close> is Python's \<open>None\<close> of a
  getter that falls through.\<close>

definition quad_grid_getter :: "env \<Rightarrow> layer \<Rightarrow> error + tensor option" where
  "quad_grid_getter e l =
     (if grid_strategy l = ''flipgrid'' then
        ebind (get_xi l) (\<lambda>x.
        ebind (tensor_op (-) x (flip0 x)) (\<lambda>d.
        ebind (grid_points d) (\<lambda>res.
        ebind (grid_size_assert e l res) (\<lambda>u. Inr (Some res)))))
      else if grid_strategy l = ''freegrid'' then
        ebind (get_xi l) (\<lambda>x.
        ebind (grid_points x) (\<lambda>res.
        ebind (grid_size_assert e l res) (\<lambda>u. Inr (Some res))))
      else if grid_strategy l = ''freeform'' then
        ebind (get_xi l) (\<lambda>x. Inr (Some x))
      else Inr None)"

definition quad_grid :: "env \<Rightarrow> layer \<Rightarrow> error + tensor option" where
  "quad_grid e l = property_read ''quad_grid'' (quad_grid_getter e l)"

text \<open>
  The argument \<open>inputs\<close> of \<open>__call__\<close>: a \<open>MultitaskMultivariateNormal\<close> with its mean
  and variance, a tensor, or any other object (with the name of its class).
\<close>

datatype input = Dist tensor tensor | Tens tensor | Obj string

text \<open>Lines 79 to 97: a distribution becomes the tensor of quadrature-perturbed inputs.\<close>

definition quad_inputs :: "env \<Rightarrow> layer \<Rightarrow> input \<Rightarrow> bool \<Rightarrow> error + input" where
  "quad_inputs e l inputs expand_for_quadgrid =
     (case inputs of
        Dist mean variance \<Rightarrow>
          let mus = mean; sigmas = tmap sqrt variance in
          ebind (if expand_for_quadgrid
                 then ebind (unsqueeze (- 3) mus) (\<lambda>m.
                      ebind (unsqueeze (- 3) sigmas) (\<lambda>s. Inr (m, s)))
                 else Inr (mus, sigmas)) (\<lambda>(xi_mus, xi_sigmas).
          ebind (quad_grid e l) (\<lambda>g.
          ebind (case g of None \<Rightarrow> Inl (AttributeError ''unsqueeze'')
                 | Some grid \<Rightarrow> unsqueeze (- 2) grid) (\<lambda>qg.
          ebind (tensor_op (*) xi_sigmas qg) (\<lambda>xi_sigmas'.
          ebind (tensor_op (+) xi_mus xi_sigmas') (\<lambda>r. Inr (Tens r))))))
      | _ \<Rightarrow> Inr inputs)"

text \<open>Lines 99 to 105: the extra inputs, expanded to \<open>num_sample_sites\<close> copies and
  concatenated to the inputs along the last axis.\<close>

definition expand_other_input :: "layer \<Rightarrow> tensor \<Rightarrow> error + tensor" where
  "expand_other_input l inp = expand_leading (num_sample_sites l) inp"

definition append_other_inputs :: "layer \<Rightarrow> input \<Rightarrow> tensor list \<Rightarrow> error + input" where
  "append_other_inputs l inputs other_inputs =
     (if other_inputs \<noteq> [] then
        ebind (emap (expand_other_input l) other_inputs) (\<lambda>processed_inputs.
          case inputs of
            Tens t \<Rightarrow> ebind (cat_last (t # processed_inputs)) (\<lambda>c. Inr (Tens c))
          | _ \<Rightarrow> Inl (TypeError ''expected Tensor as element 0 in argument 0''))
      else Inr inputs)"

text \<open>Decimal digits of a natural number, for the f-strings.\<close>

fun show_nat :: "nat \<Rightarrow> string" where
  "show_nat n =
     (if n < 10 then [''0123456789'' ! n]
      else show_nat (n div 10) @ [''0123456789'' ! (n mod 10)])"

text \<open>
  The class of the object held by \<open>inputs\<close>, and the lookup of an attribute on a class
  object: a class has the attribute \<open>__name__\<close>; a name that no class defines, such as
  \<open>__Name__\<close>, raises \<open>AttributeError\<close>.
\<close>

fun class_of :: "input \<Rightarrow> string" where
  "class_of (Dist mean variance) = ''MultitaskMultivariateNormal''"
| "class_of (Tens t) = ''Tensor''"
| "class_of (Obj c) = c"

definition class_attribute :: "string \<Rightarrow> string \<Rightarrow> error + string" where
  "class_attribute cls attr =
     (if attr = ''__name__'' then Inr cls else Inl (AttributeError attr))"

definition shape_mismatch_message :: "nat \<Rightarrow> nat \<Rightarrow> string" where
  "shape_mismatch_message got expected =
     ''Input shape did not match self.input_dims. Got total feature dims ['' @ show_nat got
     @ ''], expected ['' @ show_nat expected @ '']''"

text \<open>
  Lines 107 to 118. The message of the first check is an f-string that reads
  \<open>inputs.__class__.__Name__\<close>; it is evaluated before \<open>ValueError\<close> is constructed.
\<close>

definition debug_checks :: "env \<Rightarrow> layer \<Rightarrow> input \<Rightarrow> error + unit" where
  "debug_checks e l inputs =
     (if settings_debug e then
        (case inputs of
           Tens t \<Rightarrow>
             ebind (size_dim (- 1) t) (\<lambda>n.
               if n \<noteq> input_dims l
               then Inl (RuntimeError (shape_mismatch_message n (input_dims l)))
               else Inr ())
         | _ \<Rightarrow>
             ebind (class_attribute (class_of inputs) ''__Name__'') (\<lambda>name.
               Inl (ValueError
                 (''`inputs` should either be a MultitaskMultivariateNormal or a Tensor, got ''
                  @ name))))
      else Inr ())"

text \<open>
  \<open>__call__\<close> up to the debug checks: the inputs handed on to the replication over the
  output dimensions and to the wrapped Gaussian process (lines 120 to 135, which belong
  to the external single-layer posterior).
\<close>

definition call_inputs ::
  "env \<Rightarrow> layer \<Rightarrow> input \<Rightarrow> tensor list \<Rightarrow> bool \<Rightarrow> error + input" where
  "call_inputs e l inputs other_inputs expand_for_quadgrid =
     ebind (quad_inputs e l inputs expand_for_quadgrid) (\<lambda>i1.
     ebind (append_other_inputs l i1 other_inputs) (\<lambda>i2.
     ebind (debug_checks e l i2) (\<lambda>u. Inr i2)))"

subsection \<open>\<open>_DeepGPVariationalStrategy\<close>\<close>

text \<open>
  The module tree of a deep GP container. Every module object has an identity;
  \<open>approximate_gp\<close> is the tensor that \<open>variational_strategy.kl_divergence()\<close> returns
  when the module is an \<open>ApproximateGP\<close>, and \<open>None\<close> for any other module.
\<close>

datatype gp_module = GPModule (ident: nat) (approximate_gp: "tensor option") (submodules: "gp_module list")

text \<open>
  \<open>model.modules()\<close>: the module and its descendants in pre-order, every object once.
  torch skips an object it has already yielded, together with its subtree; two nodes
  with the same identity stand for the same object, so keeping the first occurrence of
  every identity in the pre-order list gives the same sequence.
\<close>

fun preorder :: "gp_module \<Rightarrow> gp_module list" where
  "preorder (GPModule i k ms) = GPModule i k ms # concat (map preorder ms)"

fun first_by_ident :: "nat list \<Rightarrow> gp_module list \<Rightarrow> gp_module list" where
  "first_by_ident seen [] = []"
| "first_by_ident seen (m # ms) =
     (if ident m \<in> set seen then first_by_ident seen ms
      else m # first_by_ident (ident m # seen) ms)"

definition modules :: "gp_module \<Rightarrow> gp_module list" where
  "modules m = first_by_ident [] (preorder m)"

record deep_gp_strategy =
  model :: gp_module
  sub_variational_strategies_memo :: "tensor list option"

definition deep_gp_strategy_init :: "gp_module \<Rightarrow> deep_gp_strategy" where
  "deep_gp_strategy_init m = \<lparr>model = m, sub_variational_strategies_memo = None\<rparr>"

text \<open>
  The memoised property: the strategies found at the first read are kept. A strategy is
  represented by the tensor its \<open>kl_divergence()\<close> returns.
\<close>

definition sub_variational_strategies :: "deep_gp_strategy \<Rightarrow> tensor list \<times> deep_gp_strategy" where
  "sub_variational_strategies s =
     (case sub_variational_strategies_memo s of
        None \<Rightarrow>
          let found = List.map_filter approximate_gp (modules (model s))
          in (found, s\<lparr>sub_variational_strategies_memo := Some found\<rparr>)
      | Some found \<Rightarrow> (found, s))"

text \<open>\<open>sum(strategy.kl_divergence().sum() for strategy in ...)\<close>, starting from 0.\<close>

definition kl_divergence :: "deep_gp_strategy \<Rightarrow> real \<times> deep_gp_strategy" where
  "kl_divergence s =
     (let (strategies, s') = sub_variational_strategies s
      in (foldl (+) 0 (map tsum strategies), s'))"

subsection \<open>The deep likelihoods\<close>

text \<open>
  \<open>DeepPredictiveGaussianLikelihood\<close> and \<open>MultitaskDeepPredictiveGaussianLikelihood\<close>
  have the same constructor, \<open>quad_weight_grid\<close> and \<open>log_marginal\<close>; they differ in the
  base class whose \<open>log_marginal\<close> they call, which is outside the file. The parameter
  \<open>raw_quad_weight_grid\<close> is registered only for the three known strategies.
\<close>

record likelihood =
  lik_num_sample_sites :: int
  raw_quad_weight_grid :: "tensor option"

definition likelihood_init ::
  "(nat \<Rightarrow> real list \<times> real list) \<Rightarrow> (nat \<Rightarrow> real) \<Rightarrow> nat \<Rightarrow> int \<Rightarrow> string \<Rightarrow> error + likelihood" where
  "likelihood_init gh rnd dims sites strategy =
     (let lk = \<lparr>lik_num_sample_sites = sites, raw_quad_weight_grid = None\<rparr> in
      if strategy \<in> set [''flipgrid'', ''freegrid''] then
        ebind (hermgauss gh sites) (\<lambda>(x, weights).
        ebind (stack (map vec (product_lists (replicate dims (map ln weights))))) (\<lambda>g.
        ebind (tsum_dim 1 g) (\<lambda>summed. Inr (lk\<lparr>raw_quad_weight_grid := Some summed\<rparr>))))
      else if strategy = ''freeform'' then
        ebind (randn1 rnd sites) (\<lambda>w. Inr (lk\<lparr>raw_quad_weight_grid := Some w\<rparr>))
      else Inr lk)"

definition quad_weight_grid :: "likelihood \<Rightarrow> error + tensor" where
  "quad_weight_grid lk =
     property_read ''quad_weight_grid''
       (case raw_quad_weight_grid lk of
          None \<Rightarrow> Inl (AttributeError ''raw_quad_weight_grid'')
        | Some qwd \<Rightarrow> ebind (logsumexp 1 qwd) (\<lambda>n. tensor_op (-) qwd n))"

text \<open>
  \<open>log_marginal\<close>; \<open>base_log_marginal\<close> is what the base class's \<open>log_marginal\<close> returned
  for the observations and the function distribution.
\<close>

definition log_marginal :: "likelihood \<Rightarrow> tensor \<Rightarrow> error + tensor" where
  "log_marginal lk base_log_marginal =
     ebind (quad_weight_grid lk) (\<lambda>w.
     ebind (unsqueeze (- 1) w) (\<lambda>w1.
     ebind (tensor_op (+) w1 base_log_marginal) (\<lambda>deep_log_marginal.
       logsumexp 2 deep_log_marginal)))"

text \<open>
  A module without an \<open>ApproximateGP\<close> in its tree (a kernel, a mean, a variational
  strategy), and a layer as a container holds it: an \<open>ApproximateGP\<close> whose submodules
  contain no further one.
\<close>

fun gp_free :: "gp_module \<Rightarrow> bool" where
  "gp_free (GPModule i k ms) = (k = None \<and> list_all gp_free ms)"

definition is_layer :: "gp_module \<Rightarrow> bool" where
  "is_layer m = (approximate_gp m \<noteq> None \<and> list_all gp_free (submodules m))"

section \<open>Properties\<close>

subsection \<open>Tensor operations on vectors and matrices\<close>

lemma ebind_Inr: "ebind (Inr x) f = f x"
  by (simp add: ebind_def)

lemma ebind_Inl: "ebind (Inl e) f = Inl e"
  by (simp add: ebind_def)

lemma emap_total: "(\<And>x. x \<in> set xs \<Longrightarrow> f x = Inr (g x)) \<Longrightarrow> emap f xs = Inr (map g xs)"
  by (induction xs) (simp_all add: ebind_Inr)

lemma ndim_vec: "ndim (vec xs) = Suc 0"
  by (cases xs) (simp_all add: vec_def)

lemma shape_vec: "shape (vec xs) = [length xs]"
  by (cases xs) (simp_all add: vec_def)

lemma children_vec: "children (vec xs) = map Sc xs"
  by (simp add: vec_def)

lemma ndim_mat: "rows \<noteq> [] \<Longrightarrow> ndim (mat rows) = 2"
  by (cases rows) (simp_all add: mat_def ndim_vec)

lemma shape_mat: "rows \<noteq> [] \<Longrightarrow> shape (mat rows) = [length rows, length (hd rows)]"
  by (cases rows) (simp_all add: mat_def shape_vec)

lemma children_mat: "children (mat rows) = map vec rows"
  by (simp add: mat_def)

lemma vec_inject: "vec xs = vec ys \<longleftrightarrow> xs = ys"
  by (simp add: vec_def inj_map_eq_map inj_def)

lemma mat_inject: "mat xs = mat ys \<longleftrightarrow> xs = ys"
  by (simp add: mat_def inj_map_eq_map inj_def vec_inject)

lemma broadcast_rev_same: "broadcast_rev s s = Some s"
  by (induction s) simp_all

lemma broadcast_shapes_same: "broadcast_shapes s s = Some s"
  by (simp add: broadcast_shapes_def broadcast_rev_same)

lemma bop_vec_Sc: "bop f (vec xs) (Sc c) = vec (map (\<lambda>x. f x c) xs)"
  by (simp add: vec_def)

lemma bop_vec_vec: "length xs = length ys \<Longrightarrow> bop f (vec xs) (vec ys) = vec (map (\<lambda>(x, y). f x y) (zip xs ys))"
  by (cases xs; cases ys) (auto simp add: vec_def zip_map_map)

lemma combine_Sc: "combine g (map Sc xs) = Sc (g xs)"
  by (cases xs) (simp_all add: comp_def)

lemma reduce_vec: "reduce_neg (Suc 0) g (vec xs) = Sc (g xs)"
  using ndim_vec[of xs] by (simp add: vec_def combine_Sc)

lemma logsumexp_vec: "logsumexp (Suc 0) (vec xs) = Inr (Sc (lse xs))"
  by (simp add: logsumexp_def reduce_dim_def reduce_vec ndim_vec)

lemma product_lists_length: "length (product_lists xss) = prod_list (map length xss)"
  by (induction xss) (simp_all add: length_concat comp_def sum_list_triv)

lemma product_lists_map: "product_lists (map (map f) xss) = map (map f) (product_lists xss)"
  by (induction xss) (simp_all add: map_concat comp_def)

lemma property_read_Inr: "property_read name (Inr x) = Inr x"
  by (simp add: property_read_def)

lemma tensor_op_vec_Sc: "tensor_op f (vec xs) (Sc c) = Inr (vec (map (\<lambda>x. f x c) xs))"
  by (simp add: tensor_op_def broadcast_shapes_def shape_vec bop_vec_Sc)

lemma quad_weight_grid_vec:
  "raw_quad_weight_grid lk = Some (vec ws) \<Longrightarrow>
   quad_weight_grid lk = Inr (vec (map (\<lambda>w. w - lse ws) ws))"
  by (simp add: quad_weight_grid_def logsumexp_vec ebind_Inr tensor_op_vec_Sc property_read_Inr)

lemma sum_exp_pos: "ws \<noteq> [] \<Longrightarrow> 0 < sum_list (map exp (ws::real list))"
proof (induction ws)
  case Nil then show ?case by simp
next
  case (Cons w ws)
  have "0 \<le> sum_list (map exp ws)" by (rule sum_list_nonneg) auto
  then show ?case using add_pos_nonneg[OF exp_gt_zero[of w]] by simp
qed

lemma sum_list_divide: "sum_list (map (\<lambda>x. f x / (c::real)) xs) = sum_list (map f xs) / c"
  by (induction xs) (simp_all add: add_divide_distrib)

lemma exp_normalized:
  assumes "ws \<noteq> []"
  shows "sum_list (map exp (map (\<lambda>w. w - lse ws) ws)) = 1"
proof -
  let ?z = "sum_list (map exp ws)"
  have pos: "0 < ?z" using assms by (rule sum_exp_pos)
  have "exp (w - lse ws) = exp w / ?z" for w
    using pos by (simp add: lse_def exp_diff)
  then have "sum_list (map exp (map (\<lambda>w. w - lse ws) ws)) = sum_list (map (\<lambda>w. exp w / ?z) ws)"
    by (simp add: comp_def)
  also have "\<dots> = ?z / ?z" by (rule sum_list_divide)
  also have "\<dots> = 1" using pos by simp
  finally show ?thesis .
qed

lemma stack_vecs:
  "ps \<noteq> [] \<Longrightarrow> list_all (\<lambda>p. length p = n) ps \<Longrightarrow> stack (map vec ps) = Inr (mat ps)"
  by (cases ps) (auto simp add: stack_def mat_def shape_vec list_all_iff)

lemma reduce_last_mat:
  "ps \<noteq> [] \<Longrightarrow> reduce_neg (Suc 0) g (mat ps) = vec (map g ps)"
  using ndim_mat[of ps] by (simp add: mat_def reduce_vec comp_def) (simp add: vec_def)

lemma tsum_dim_mat: "ps \<noteq> [] \<Longrightarrow> tsum_dim (Suc 0) (mat ps) = Inr (vec (map sum_list ps))"
  by (simp add: tsum_dim_def reduce_dim_def reduce_last_mat ndim_mat)

lemma product_lists_lengths:
  "list_all (\<lambda>p. length p = length xss) (product_lists xss)"
  by (simp add: list_all_iff in_set_product_lists_length)

lemma likelihood_init_grid:
  assumes "likelihood_init gh rnd dims sites strategy = Inr lk"
    and "strategy = ''flipgrid'' \<or> strategy = ''freegrid''"
  shows "\<exists>ws. ws \<noteq> [] \<and> raw_quad_weight_grid lk = Some (vec ws)"
proof -
  from assms have pos: "0 < sites"
    by (auto simp: likelihood_init_def hermgauss_def ebind_def Let_def split: if_splits)
  obtain x weights where g: "gh (nat sites) = (x, weights)" by (cases "gh (nat sites)")
  let ?ps = "product_lists (replicate dims (map ln weights))"
  have ne: "?ps \<noteq> []"
  proof
    assume e: "?ps = []"
    then have "stack (map vec ?ps) = Inl (RuntimeError ''stack expects a non-empty TensorList'')"
      by (simp add: stack_def)
    with assms pos g show False
      by (auto simp: likelihood_init_def hermgauss_def ebind_def Let_def split: if_splits)
  qed
  have "list_all (\<lambda>p. length p = dims) ?ps"
    using product_lists_lengths[of "replicate dims (map ln weights)"] by simp
  with ne have st: "stack (map vec ?ps) = Inr (mat ?ps)" by (rule stack_vecs)
  have "raw_quad_weight_grid lk = Some (vec (map sum_list ?ps))"
    using assms pos g st tsum_dim_mat[OF ne]
    by (auto simp: likelihood_init_def hermgauss_def ebind_def Let_def split: if_splits)
  with ne show ?thesis by (intro exI[of _ "map sum_list ?ps"]) simp
qed

lemma likelihood_init_freeform:
  assumes "likelihood_init gh rnd dims sites ''freeform'' = Inr lk" and "0 < sites"
  shows "\<exists>ws. ws \<noteq> [] \<and> raw_quad_weight_grid lk = Some (vec ws)"
  using assms
  by (intro exI[of _ "map rnd [0..<nat sites]"])
     (auto simp: likelihood_init_def randn1_def ebind_def Let_def split: if_splits)

lemma likelihood_init_unknown:
  assumes "strategy \<notin> set [''flipgrid'', ''freegrid'', ''freeform'']"
  shows "likelihood_init gh rnd dims sites strategy
           = Inr \<lparr>lik_num_sample_sites = sites, raw_quad_weight_grid = None\<rparr> \<and>
         quad_weight_grid \<lparr>lik_num_sample_sites = sites, raw_quad_weight_grid = None\<rparr>
           = Inl (AttributeError ''quad_weight_grid'')"
  using assms by (simp add: likelihood_init_def quad_weight_grid_def property_read_def)

lemma unsqueeze_last_vec:
  "unsqueeze (- 1) (vec ws) = Inr (Nd (map (\<lambda>w. Nd [Sc w]) ws))"
  by (simp add: unsqueeze_def ndim_vec Let_def) (simp add: vec_def)

lemma bop_singleton_vec:
  "bop f (Nd [Sc w]) (vec r) = vec (map (f w) r)"
proof (cases r)
  case Nil then show ?thesis by (simp add: vec_def)
next
  case (Cons a as)
  then show ?thesis by (cases as) (simp_all add: vec_def)
qed

lemma shape_col:
  "ws \<noteq> [] \<Longrightarrow> shape (Nd (map (\<lambda>w. Nd [Sc w]) ws)) = [length ws, 1]"
  by (cases ws) simp_all

lemma ndim_col:
  "ws \<noteq> [] \<Longrightarrow> ndim (Nd (map (\<lambda>w. Nd [Sc w]) ws)) = 2"
  by (cases ws) simp_all

lemma broadcast_col_mat: "broadcast_shapes [S, Suc 0] [S, N] = Some [S, N]"
  by (simp add: broadcast_shapes_def)

lemma tensor_op_col_mat:
  assumes "ws \<noteq> []" "length rows = length ws"
  shows "tensor_op f (Nd (map (\<lambda>w. Nd [Sc w]) ws)) (mat rows)
           = Inr (mat (map (\<lambda>(w, r). map (f w) r) (zip ws rows)))"
proof -
  from assms have ne: "rows \<noteq> []" by auto
  have "bop f (Nd (map (\<lambda>w. Nd [Sc w]) ws)) (mat rows)
          = Nd (map (\<lambda>(x, y). bop f x y) (zip (map (\<lambda>w. Nd [Sc w]) ws) (map vec rows)))"
    using assms ne ndim_col[OF assms(1)] ndim_mat[OF ne]
    by (cases ws; cases rows) (simp_all add: mat_def)
  also have "\<dots> = mat (map (\<lambda>(w, r). map (f w) r) (zip ws rows))"
    by (simp add: mat_def zip_map_map comp_def bop_singleton_vec split_def)
  finally show ?thesis
    using assms ne by (simp add: tensor_op_def shape_col shape_mat broadcast_col_mat)
qed

lemma combine_vecs:
  assumes "rows \<noteq> []" "list_all (\<lambda>r. length r = N) rows"
  shows "combine g (map vec rows) = vec (map (\<lambda>n. g (map (\<lambda>r. r ! n) rows)) [0..<N])"
proof -
  obtain r rs where rows: "rows = r # rs" using assms(1) by (cases rows) auto
  have len: "\<And>q. q \<in> set rows \<Longrightarrow> length q = N" using assms(2) by (simp add: list_all_iff)
  have "combine g (map vec rows)
          = Nd (map (\<lambda>j. combine g (map (\<lambda>t. children t ! j) (map vec rows))) [0..<N])"
    using rows len[of r] by (simp add: vec_def)
  also have "\<dots> = Nd (map (\<lambda>j. Sc (g (map (\<lambda>r. r ! j) rows))) [0..<N])"
  proof -
    have "combine g (map (\<lambda>t. children t ! j) (map vec rows)) = Sc (g (map (\<lambda>r. r ! j) rows))"
      if "j < N" for j
    proof -
      have "map (\<lambda>t. children t ! j) (map vec rows) = map Sc (map (\<lambda>r. r ! j) rows)"
        using that len by (simp add: children_vec)
      then show ?thesis by (simp only: combine_Sc)
    qed
    then show ?thesis by simp
  qed
  finally show ?thesis by (simp add: vec_def comp_def)
qed

lemma logsumexp_mat:
  assumes "rows \<noteq> []" "list_all (\<lambda>r. length r = N) rows"
  shows "logsumexp 2 (mat rows) = Inr (vec (map (\<lambda>n. lse (map (\<lambda>r. r ! n) rows)) [0..<N]))"
  using assms ndim_mat[OF assms(1)] combine_vecs[OF assms]
  by (simp add: logsumexp_def reduce_dim_def) (simp add: mat_def)


subsection \<open>The quadrature-weighted marginal likelihood\<close>

text \<open>
  C1. For a deep likelihood whose \<open>quad_weight_grid\<close> is the vector \<open>nw\<close> of normalized
  log-weights, one per site, and a (sites x N) tensor of per-site log marginals,
  \<open>log_marginal\<close> returns one value per observation \<open>n\<close>: the log-sum-exp over the sites
  \<open>s\<close> of \<open>nw[s] + site_log_marginal[s, n]\<close>.
\<close>

theorem log_marginal_mixture:
  assumes "quad_weight_grid lk = Inr (vec nw)"
    and "nw \<noteq> []"
    and "length rows = length nw"
    and "list_all (\<lambda>r. length r = N) rows"
  shows "log_marginal lk (mat rows) =
           Inr (vec (map (\<lambda>n. lse (map (\<lambda>s. nw ! s + rows ! s ! n) [0..<length nw])) [0..<N]))"
proof -
  let ?d = "map (\<lambda>(w, r). map ((+) w) r) (zip nw rows)"
  have ne: "?d \<noteq> []" using assms(2,3) by (cases nw; cases rows) auto
  have rect: "list_all (\<lambda>r. length r = N) ?d"
    using assms(4) by (auto simp: list_all_iff dest: set_zip_rightD)
  have cols: "map (\<lambda>r. r ! n) ?d = map (\<lambda>s. nw ! s + rows ! s ! n) [0..<length nw]" if "n < N" for n
  proof (rule nth_equalityI)
    show "length (map (\<lambda>r. r ! n) ?d) = length (map (\<lambda>s. nw ! s + rows ! s ! n) [0..<length nw])"
      using assms(3) by simp
  next
    fix i assume "i < length (map (\<lambda>r. r ! n) ?d)"
    then have i: "i < length nw" using assms(3) by simp
    then have "rows ! i \<in> set rows" using assms(3) by simp
    then have "length (rows ! i) = N" using assms(4) by (simp add: list_all_iff)
    then show "map (\<lambda>r. r ! n) ?d ! i = map (\<lambda>s. nw ! s + rows ! s ! n) [0..<length nw] ! i"
      using i assms(3) that by simp
  qed
  have "log_marginal lk (mat rows) = logsumexp 2 (mat ?d)"
    using assms(1-3)
    by (simp add: log_marginal_def ebind_Inr unsqueeze_last_vec tensor_op_col_mat)
  also have "\<dots> = Inr (vec (map (\<lambda>n. lse (map (\<lambda>r. r ! n) ?d)) [0..<N]))"
    by (rule logsumexp_mat[OF ne rect])
  also have "map (\<lambda>n. lse (map (\<lambda>r. r ! n) ?d)) [0..<N]
             = map (\<lambda>n. lse (map (\<lambda>s. nw ! s + rows ! s ! n) [0..<length nw])) [0..<N]"
    using cols by simp
  finally show ?thesis .
qed

definition lk_two_sites :: likelihood where
  "lk_two_sites = \<lparr>lik_num_sample_sites = 2, raw_quad_weight_grid = Some (vec [0, 0])\<rparr>"

theorem log_marginal_mixture_witness:
  "quad_weight_grid lk_two_sites = Inr (vec (map (\<lambda>w. w - lse [0, 0]) [0, 0])) \<and>
   log_marginal lk_two_sites (mat [[1, 2, 3], [4, 5, 6]]) =
     Inr (vec (map (\<lambda>n. lse (map (\<lambda>s. map (\<lambda>w. w - lse [0, 0]) [0, 0] ! s
                                      + [[1, 2, 3], [4, 5, 6]] ! s ! n)
                             [0..<length (map (\<lambda>w. w - lse [0, 0]) [0, 0 :: real])]))
                   [0..<3]))"
proof (rule conjI)
  show h: "quad_weight_grid lk_two_sites = Inr (vec (map (\<lambda>w. w - lse [0, 0]) [0, 0]))"
    by (rule quad_weight_grid_vec) (simp add: lk_two_sites_def)
  show "log_marginal lk_two_sites (mat [[1, 2, 3], [4, 5, 6]]) =
     Inr (vec (map (\<lambda>n. lse (map (\<lambda>s. map (\<lambda>w. w - lse [0, 0]) [0, 0] ! s
                                      + [[1, 2, 3], [4, 5, 6]] ! s ! n)
                             [0..<length (map (\<lambda>w. w - lse [0, 0]) [0, 0 :: real])]))
                   [0..<3]))"
    by (rule log_marginal_mixture[OF h]) simp_all
qed

text \<open>
  C4, as amended. For a deep likelihood constructed with strategy flipgrid or freegrid, or
  with strategy freeform and at least one site, \<open>quad_weight_grid\<close> is the raw log-weights
  minus their log-sum-exp, and the exponentials of the returned log-weights sum to 1.
\<close>

theorem quad_weight_grid_normalized:
  assumes "likelihood_init gh rnd dims sites strategy = Inr lk"
    and "strategy = ''flipgrid'' \<or> strategy = ''freegrid'' \<or> (strategy = ''freeform'' \<and> 0 < sites)"
  shows "\<exists>ws. raw_quad_weight_grid lk = Some (vec ws) \<and>
              quad_weight_grid lk = Inr (vec (map (\<lambda>w. w - lse ws) ws)) \<and>
              sum_list (map exp (map (\<lambda>w. w - lse ws) ws)) = 1"
proof -
  obtain ws where ws: "ws \<noteq> []" "raw_quad_weight_grid lk = Some (vec ws)"
    using assms likelihood_init_grid[OF assms(1)] likelihood_init_freeform[of gh rnd dims sites lk]
    by blast
  show ?thesis
    using ws quad_weight_grid_vec[OF ws(2)] exp_normalized[OF ws(1)] by blast
qed

theorem quad_weight_grid_normalized_witness:
  "likelihood_init (\<lambda>n. ([- 1, 1], [1, 1])) (\<lambda>n. 0) 1 2 ''flipgrid'' = Inr lk_two_sites \<and>
   quad_weight_grid lk_two_sites = Inr (vec [0 - lse [0, 0], 0 - lse [0, 0]]) \<and>
   exp (0 - lse [0, 0]) + exp (0 - lse [0, 0]) = 1"
proof -
  have i: "likelihood_init (\<lambda>n. ([- 1, 1], [1, 1])) (\<lambda>n. 0) 1 2 ''flipgrid'' = Inr lk_two_sites"
    by (simp add: likelihood_init_def hermgauss_def ebind_Inr stack_def shape_vec tsum_dim_def
          reduce_dim_def ndim_vec reduce_vec lk_two_sites_def vec_def)
  from quad_weight_grid_normalized[OF i] obtain ws where
    ws: "raw_quad_weight_grid lk_two_sites = Some (vec ws)"
        "quad_weight_grid lk_two_sites = Inr (vec (map (\<lambda>w. w - lse ws) ws))"
        "sum_list (map exp (map (\<lambda>w. w - lse ws) ws)) = 1"
    by auto
  from ws(1) have "ws = [0, 0]" by (auto simp: lk_two_sites_def vec_def)
  with ws i show ?thesis by simp
qed

text \<open>
  The claim as stated fails for a freeform likelihood with no site: its raw weight grid is
  the empty vector, so is the normalized one (whatever the log-sum-exp of the empty
  vector is), and the exponentials sum to 0.
\<close>

theorem quad_weight_grid_normalized_counterexample:
  "likelihood_init (\<lambda>n. ([], [])) (\<lambda>n. 0) 1 0 ''freeform''
     = Inr \<lparr>lik_num_sample_sites = 0, raw_quad_weight_grid = Some (vec [])\<rparr> \<and>
   quad_weight_grid \<lparr>lik_num_sample_sites = 0, raw_quad_weight_grid = Some (vec [])\<rparr>
     = Inr (vec []) \<and>
   tsum (tmap exp (vec [])) \<noteq> 1"
  by (simp add: likelihood_init_def randn1_def ebind_Inr quad_weight_grid_vec) (simp add: vec_def)

subsection \<open>The composite KL divergence\<close>

lemma foldl_add_sum_list: "foldl (+) (a::real) xs = a + sum_list xs"
  by (induction xs arbitrary: a) simp_all

lemma kl_divergence_value:
  "fst (kl_divergence s) = sum_list (map tsum (fst (sub_variational_strategies s)))"
  by (simp add: kl_divergence_def foldl_add_sum_list split: prod.splits)

lemma sub_variational_strategies_fresh:
  "fst (sub_variational_strategies (deep_gp_strategy_init m)) =
     List.map_filter approximate_gp (modules m)"
  by (simp add: sub_variational_strategies_def deep_gp_strategy_init_def Let_def)

lemma first_by_ident_distinct:
  "distinct (map ident ms) \<Longrightarrow> set (map ident ms) \<inter> set seen = {} \<Longrightarrow> first_by_ident seen ms = ms"
  by (induction ms arbitrary: seen) auto

lemma gp_free_none: "gp_free m \<Longrightarrow> List.map_filter approximate_gp (preorder m) = []"
proof (induction m)
  case (GPModule i k ms)
  then have "\<And>x. x \<in> set ms \<Longrightarrow> List.map_filter approximate_gp (preorder x) = []"
    by (simp add: list_all_iff)
  then have "List.map_filter approximate_gp (concat (map preorder ms)) = []"
    by (induction ms) (simp_all add: List.map_filter_def)
  with GPModule.prems show ?case by (simp add: List.map_filter_def)
qed

lemma layer_kl:
  assumes "is_layer m"
  shows "List.map_filter approximate_gp (preorder m) = [the (approximate_gp m)]"
proof (cases m)
  case (GPModule i k ms)
  with assms obtain kl where k: "k = Some kl" and f: "list_all gp_free ms"
    by (auto simp: is_layer_def)
  have "\<And>x. x \<in> set ms \<Longrightarrow> List.map_filter approximate_gp (preorder x) = []"
    using f gp_free_none by (simp add: list_all_iff)
  then have "List.map_filter approximate_gp (concat (map preorder ms)) = []"
    by (induction ms) (simp_all add: List.map_filter_def)
  with GPModule k show ?thesis by (simp add: List.map_filter_def)
qed

lemma layers_kl:
  "list_all is_layer ms \<Longrightarrow>
   List.map_filter approximate_gp (concat (map preorder ms)) = map (\<lambda>m. the (approximate_gp m)) ms"
proof (induction ms)
  case Nil then show ?case by (simp add: List.map_filter_def)
next
  case (Cons m ms)
  then have "List.map_filter approximate_gp (preorder m) = [the (approximate_gp m)]"
    using layer_kl by simp
  moreover have "List.map_filter approximate_gp (xs @ ys)
     = List.map_filter approximate_gp xs @ List.map_filter approximate_gp ys" for xs ys
    by (simp add: List.map_filter_def)
  ultimately show ?case using Cons by simp
qed

lemma container_kl:
  assumes "distinct (map ident (preorder (GPModule i None layers)))" "list_all is_layer layers"
  shows "fst (kl_divergence (deep_gp_strategy_init (GPModule i None layers)))
           = sum_list (map (\<lambda>m. tsum (the (approximate_gp m))) layers)"
proof -
  let ?c = "GPModule i None layers"
  have "modules ?c = preorder ?c"
    unfolding modules_def using first_by_ident_distinct[OF assms(1), of "[]"] by simp
  then have "fst (sub_variational_strategies (deep_gp_strategy_init ?c))
               = map (\<lambda>m. the (approximate_gp m)) layers"
    using layers_kl[OF assms(2)]
    by (simp add: sub_variational_strategies_fresh List.map_filter_simps)
  then show ?thesis by (simp add: kl_divergence_value comp_def)
qed

lemma sub_variational_strategies_memo:
  "sub_variational_strategies (snd (sub_variational_strategies s))
     = (fst (sub_variational_strategies s), snd (sub_variational_strategies s))"
  by (cases "sub_variational_strategies_memo s")
     (simp_all add: sub_variational_strategies_def Let_def)

text \<open>
  C6. \<open>kl_divergence\<close> returns the sum, over the discovered sub-GP components, of each
  component's KL tensor summed to a scalar; a fresh container discovers the
  \<open>ApproximateGP\<close> modules of its module tree, nested at any depth; and a container
  holding k layers, all module objects distinct, returns the sum of the k per-layer
  scalars.
\<close>

theorem kl_divergence_additive:
  "fst (kl_divergence s) = sum_list (map tsum (fst (sub_variational_strategies s))) \<and>
   fst (sub_variational_strategies (deep_gp_strategy_init m)) =
     List.map_filter approximate_gp (modules m) \<and>
   (distinct (map ident (preorder (GPModule i None layers))) \<and> list_all is_layer layers \<longrightarrow>
      fst (kl_divergence (deep_gp_strategy_init (GPModule i None layers)))
        = sum_list (map (\<lambda>m. tsum (the (approximate_gp m))) layers))"
  using kl_divergence_value[of s] sub_variational_strategies_fresh[of m]
        container_kl[of i layers]
  by blast

definition two_layers :: "gp_module list" where
  "two_layers = [GPModule 1 (Some (Sc 1.5)) [GPModule 3 None []], GPModule 2 (Some (Sc 2.5)) []]"

theorem kl_divergence_additive_witness:
  "distinct (map ident (preorder (GPModule 0 None two_layers))) \<and> list_all is_layer two_layers \<and>
   fst (kl_divergence (deep_gp_strategy_init (GPModule 0 None two_layers))) = 4.0"
proof -
  have d: "distinct (map ident (preorder (GPModule 0 None two_layers)))"
    by (simp add: two_layers_def)
  have l: "list_all is_layer two_layers"
    by (simp add: two_layers_def is_layer_def)
  from kl_divergence_additive[of "deep_gp_strategy_init (GPModule 0 None two_layers)"
          "GPModule 0 None two_layers" 0 two_layers] d l
  have "fst (kl_divergence (deep_gp_strategy_init (GPModule 0 None two_layers)))
          = sum_list (map (\<lambda>m. tsum (the (approximate_gp m))) two_layers)"
    by blast
  also have "\<dots> = 4.0" by (simp add: two_layers_def)
  finally show ?thesis using d l by blast
qed

subsection \<open>The quadrature grid\<close>

text \<open>
  The per-dimension vectors of a (Q x T) tensor given by its rows: \<open>columns rows T\<close> lists,
  for each of the \<open>T\<close> sample-site dimensions, the \<open>Q\<close> entries of that dimension.
\<close>

definition columns :: "real list list \<Rightarrow> nat \<Rightarrow> real list list" where
  "columns rows T = map (\<lambda>j. map (\<lambda>r. r ! j) rows) [0..<T]"

lemma iterate_mat: "iterate (mat rows) = Inr (map vec rows)"
  by (simp add: iterate_def mat_def)

lemma t2_mat:
  assumes "rows \<noteq> []" "list_all (\<lambda>r. length r = T) rows"
  shows "t2 (mat rows) = Inr (mat (columns rows T))"
proof -
  have len: "\<And>r. r \<in> set rows \<Longrightarrow> length r = T" using assms(2) by (simp add: list_all_iff)
  have hd: "length (children (hd (children (mat rows)))) = T"
    using assms(1) len[of "hd rows"] by (cases rows) (simp_all add: children_mat children_vec)
  have "map (\<lambda>r. children r ! j) (children (mat rows)) = map Sc (map (\<lambda>r. r ! j) rows)"
    if "j < T" for j
    using that len by (simp add: children_mat children_vec)
  then have "map (\<lambda>j. Nd (map (\<lambda>r. children r ! j) (children (mat rows)))) [0..<T]
               = map vec (columns rows T)"
    by (simp add: columns_def vec_def)
  then show ?thesis
    using ndim_mat[OF assms(1)] hd by (simp add: t2_def mat_def)
qed

lemma cat0_point:
  "p \<noteq> [] \<Longrightarrow> ebind (emap (unsqueeze (- 1)) (map Sc p)) cat0 = Inr (vec p)"
proof -
  assume ne: "p \<noteq> []"
  have "emap (unsqueeze (- 1)) (map Sc p) = Inr (map (\<lambda>t. Nd [t]) (map Sc p))"
    by (rule emap_total) (auto simp: unsqueeze_def)
  moreover have "cat0 (map (\<lambda>t. Nd [t]) (map Sc p)) = Inr (vec p)"
    using ne by (cases p) (simp_all add: cat0_def list_all_iff list_ex_iff vec_def comp_def)
  ultimately show ?thesis by (simp add: ebind_Inr)
qed

lemma product_lists_nonempty:
  "list_all (\<lambda>xs. xs \<noteq> []) xss \<Longrightarrow> product_lists xss \<noteq> []"
  by (induction xss) (auto simp: neq_Nil_conv)

lemma columns_length: "length (columns rows T) = T"
  by (simp add: columns_def)

lemma columns_nonempty: "rows \<noteq> [] \<Longrightarrow> list_all (\<lambda>c. c \<noteq> []) (columns rows T)"
  by (simp add: columns_def list_all_iff)

lemma grid_points_mat:
  assumes "rows \<noteq> []" "0 < T" "list_all (\<lambda>r. length r = T) rows"
  shows "grid_points (mat rows) = Inr (mat (product_lists (columns rows T)))"
proof -
  let ?cols = "columns rows T"
  let ?pts = "product_lists ?cols"
  have "emap iterate (map vec ?cols) = Inr (map children (map vec ?cols))"
    by (rule emap_total) (auto simp: iterate_def vec_def)
  then have axes: "emap iterate (map vec ?cols) = Inr (map (map Sc) ?cols)"
    by (simp add: comp_def children_vec)
  have plen: "\<And>p. p \<in> set ?pts \<Longrightarrow> length p = T"
    using in_set_product_lists_length[of _ ?cols] by (simp add: columns_length)
  have pts: "emap (\<lambda>tup. ebind (emap (unsqueeze (- 1)) tup) cat0) (map (map Sc) ?pts)
               = Inr (map vec ?pts)"
  proof -
    have "emap (\<lambda>tup. ebind (emap (unsqueeze (- 1)) tup) cat0) (map (map Sc) ?pts)
            = Inr (map (\<lambda>tup. vec (map scalar tup)) (map (map Sc) ?pts))"
    proof (rule emap_total)
      fix tup assume "tup \<in> set (map (map Sc) ?pts)"
      then obtain p where p: "p \<in> set ?pts" "tup = map Sc p" by auto
      then have "p \<noteq> []" using plen[of p] assms(2) by auto
      then show "ebind (emap (unsqueeze (- 1)) tup) cat0 = Inr (vec (map scalar tup))"
        using p by (simp add: cat0_point comp_def)
    qed
    then show ?thesis by (simp add: comp_def)
  qed
  have ne: "?pts \<noteq> []"
    by (rule product_lists_nonempty) (rule columns_nonempty[OF assms(1)])
  have "list_all (\<lambda>p. length p = T) ?pts" using plen by (simp add: list_all_iff)
  with ne have st: "stack (map vec ?pts) = Inr (mat ?pts)" by (rule stack_vecs)
  show ?thesis
    unfolding grid_points_def
    by (simp add: t2_mat[OF assms(1,3)] ebind_Inr iterate_mat axes product_lists_map pts st)
qed

lemma grid_size: 
  "length (product_lists (columns rows T)) = length rows ^ T"
proof -
  have "map length (columns rows T) = replicate T (length rows)"
    by (rule nth_equalityI) (simp_all add: columns_def)
  then show ?thesis by (simp add: product_lists_length prod_list_replicate)
qed

text \<open>The entries of \<open>xi - xi.flip(dims=[0])\<close> for a tensor given by its rows.\<close>

definition flip_diff :: "real list list \<Rightarrow> real list list" where
  "flip_diff rows = map (\<lambda>(r, q). map (\<lambda>(a, b). a - b) (zip r q)) (zip rows (rev rows))"

lemma flip0_mat: "flip0 (mat rows) = mat (rev rows)"
  by (simp add: mat_def rev_map)

lemma hd_rev_length:
  "rows \<noteq> [] \<Longrightarrow> list_all (\<lambda>r. length r = T) rows \<Longrightarrow> length (hd (rev rows)) = T \<and> length (hd rows) = T"
proof -
  assume ne: "rows \<noteq> []" and all: "list_all (\<lambda>r. length r = T) rows"
  have "hd rows \<in> set rows" "hd (rev rows) \<in> set rows"
    using ne hd_in_set[of rows] hd_in_set[of "rev rows"] by simp_all
  then show ?thesis using all by (simp add: list_all_iff)
qed

lemma bop_mat_mat:
  assumes "length rows = length qs" "rows \<noteq> []"
    and "list_all (\<lambda>r. length r = T) rows" "list_all (\<lambda>r. length r = T) qs"
  shows "bop f (mat rows) (mat qs)
           = mat (map (\<lambda>(r, q). map (\<lambda>(a, b). f a b) (zip r q)) (zip rows qs))"
proof -
  have qne: "qs \<noteq> []" using assms(1,2) by auto
  have "bop f (mat rows) (mat qs) = Nd (map (\<lambda>(x, y). bop f x y) (zip (map vec rows) (map vec qs)))"
    using assms(1,2) qne ndim_mat[OF assms(2)] ndim_mat[OF qne]
    by (cases rows; cases qs) (simp_all add: mat_def)
  also have "\<dots> = Nd (map (\<lambda>(r, q). bop f (vec r) (vec q)) (zip rows qs))"
    by (simp add: zip_map_map comp_def split_def)
  also have "map (\<lambda>(r, q). bop f (vec r) (vec q)) (zip rows qs)
               = map (\<lambda>(r, q). vec (map (\<lambda>(a, b). f a b) (zip r q))) (zip rows qs)"
  proof (rule map_cong[OF refl])
    fix z assume z: "z \<in> set (zip rows qs)"
    then have "fst z \<in> set rows" "snd z \<in> set qs"
      by (auto dest: set_zip_leftD set_zip_rightD simp: prod_eq_iff intro: set_zip_leftD[of "fst z" "snd z"] set_zip_rightD[of "fst z" "snd z"])
    then have "length (fst z) = length (snd z)" using assms(3,4) by (simp add: list_all_iff)
    then show "(case z of (r, q) \<Rightarrow> bop f (vec r) (vec q))
                 = (case z of (r, q) \<Rightarrow> vec (map (\<lambda>(a, b). f a b) (zip r q)))"
      by (simp add: split_def bop_vec_vec)
  qed
  finally show ?thesis by (simp add: mat_def comp_def split_def)
qed

lemma flip_sub_mat:
  assumes "rows \<noteq> []" "list_all (\<lambda>r. length r = T) rows"
  shows "tensor_op (-) (mat rows) (flip0 (mat rows)) = Inr (mat (flip_diff rows))"
proof -
  have r: "rev rows \<noteq> []" "list_all (\<lambda>r. length r = T) (rev rows)"
    using assms by (simp_all add: list_all_iff)
  have "shape (mat (rev rows)) = shape (mat rows)"
    using assms r hd_rev_length[OF assms] by (simp add: shape_mat)
  then show ?thesis
    using bop_mat_mat[of rows "rev rows" T "(-)"] assms r
    by (simp add: tensor_op_def flip0_mat broadcast_shapes_same flip_diff_def)
qed

lemma flip_diff_length: "length (flip_diff rows) = length rows"
  by (simp add: flip_diff_def)

lemma flip_diff_rect:
  "list_all (\<lambda>r. length r = T) rows \<Longrightarrow> list_all (\<lambda>r. length r = T) (flip_diff rows)"
proof -
  assume all: "list_all (\<lambda>r. length r = T) rows"
  have "length (map (\<lambda>(a, b). a - b) (zip r q)) = T" if "(r, q) \<in> set (zip rows (rev rows))" for r q
  proof -
    have "r \<in> set rows" "q \<in> set rows"
      using that set_zip_leftD[OF that] set_zip_rightD[OF that] by simp_all
    then show ?thesis using all by (simp add: list_all_iff)
  qed
  then show ?thesis by (auto simp: flip_diff_def list_all_iff)
qed

lemma size_dim_mat: "ps \<noteq> [] \<Longrightarrow> size_dim (- 2) (mat ps) = Inr (length ps)"
  by (simp add: size_dim_def ndim_mat shape_mat)

lemma grid_size_assert_mat:
  "ps \<noteq> [] \<Longrightarrow> grid_size_assert e l (mat ps)
     = (if py_assertions e then Inl (AttributeError ''self'') else Inr ())"
  by (simp add: grid_size_assert_def size_dim_mat ebind_Inr)

lemma property_read_attr: "property_read name (Inl (AttributeError a)) = Inl (AttributeError name)"
  by (simp add: property_read_def)

lemma grid_nonempty: "rows \<noteq> [] \<Longrightarrow> product_lists (columns rows T) \<noteq> []"
  by (rule product_lists_nonempty) (rule columns_nonempty)

lemma quad_grid_freegrid:
  assumes "grid_strategy l = ''freegrid''" "xi l = Some (mat rows)"
    and "rows \<noteq> []" "0 < T" "list_all (\<lambda>r. length r = T) rows"
  shows "quad_grid e l =
           (if py_assertions e then Inl (AttributeError ''quad_grid'')
            else Inr (Some (mat (product_lists (columns rows T)))))"
  using assms grid_nonempty[OF assms(3), of T]
  by (simp add: quad_grid_def quad_grid_getter_def get_xi_def ebind_Inr ebind_Inl grid_points_mat
        grid_size_assert_mat property_read_attr property_read_Inr)

lemma quad_grid_flipgrid:
  assumes "grid_strategy l = ''flipgrid''" "xi l = Some (mat rows)"
    and "rows \<noteq> []" "0 < T" "list_all (\<lambda>r. length r = T) rows"
  shows "quad_grid e l =
           (if py_assertions e then Inl (AttributeError ''quad_grid'')
            else Inr (Some (mat (product_lists (columns (flip_diff rows) T)))))"
proof -
  have d: "flip_diff rows \<noteq> []" using assms(3) flip_diff_length[of rows] by auto
  show ?thesis
    using assms(1,2,4) grid_nonempty[OF d, of T]
    by (simp add: quad_grid_def quad_grid_getter_def get_xi_def ebind_Inr ebind_Inl
          flip_sub_mat[OF assms(3,5)] grid_points_mat[OF d assms(4) flip_diff_rect[OF assms(5)]]
          grid_size_assert_mat property_read_attr property_read_Inr)
qed

lemma quad_grid_freeform:
  "grid_strategy l = ''freeform'' \<Longrightarrow> xi l = Some x \<Longrightarrow> quad_grid e l = Inr (Some x)"
  by (simp add: quad_grid_def quad_grid_getter_def get_xi_def ebind_Inr property_read_Inr)

lemma concat_replicate_single: "concat (replicate n [a]) = replicate n a"
  by (induction n) simp_all

lemma replicate_abscissae_mat:
  "replicate_abscissae x T = Inr (mat (map (replicate T) x))"
  by (simp add: replicate_abscissae_def unsqueeze_last_vec ebind_Inr repeat_1_def comp_def
        concat_replicate_single)
     (simp add: mat_def vec_def comp_def)

lemma tmap_mat: "tmap f (mat rows) = mat (map (map f) rows)"
  by (simp add: mat_def vec_def comp_def)

lemma layer_init_freeform:
  assumes "layer_init e gh rnd in_dims out_dims sites ''freeform'' None site_dims = Inr l"
  shows "0 \<le> sites \<and> grid_strategy l = ''freeform'' \<and> num_sample_sites l = sites \<and>
         sample_site_dims l = (case site_dims of None \<Rightarrow> in_dims | Some d \<Rightarrow> d) \<and>
         xi l = Some (mat (map (\<lambda>i. map (\<lambda>j. rnd (i * sample_site_dims l + j))
                                   [0..<sample_site_dims l]) [0..<nat sites]))"
  using assms
  by (auto simp: layer_init_def randn2_def ebind_def Let_def split: if_splits)

lemma layer_init_flipgrid:
  assumes "layer_init e gh rnd in_dims out_dims sites ''flipgrid'' None site_dims = Inr l"
  shows "0 < sites \<and> grid_strategy l = ''flipgrid'' \<and> num_sample_sites l = sites \<and>
         sample_site_dims l = (case site_dims of None \<Rightarrow> in_dims | Some d \<Rightarrow> d) \<and>
         xi l = Some (mat (map (\<lambda>a. replicate (sample_site_dims l) (0.5 * a))
                             (fst (gh (nat sites)))))"
  using assms
  by (auto simp: layer_init_def hermgauss_def ebind_def Let_def replicate_abscissae_mat tmap_mat
        comp_def split: if_splits prod.splits)

lemma layer_init_freegrid:
  assumes "layer_init e gh rnd in_dims out_dims sites ''freegrid'' None site_dims = Inr l"
  shows "0 < sites \<and> grid_strategy l = ''freegrid'' \<and> num_sample_sites l = sites \<and>
         sample_site_dims l = (case site_dims of None \<Rightarrow> in_dims | Some d \<Rightarrow> d) \<and>
         xi l = Some (mat (map (replicate (sample_site_dims l)) (fst (gh (nat sites)))))"
  using assms
  by (auto simp: layer_init_def hermgauss_def ebind_def Let_def replicate_abscissae_mat
        split: if_splits prod.splits)

lemma grid_points_lengths:
  "list_all (\<lambda>p. length p = T) (product_lists (columns rows T))"
  using product_lists_lengths[of "columns rows T"] by (simp add: columns_length)

lemma flip_diff_nth:
  assumes "i < length rows" "j < T" "list_all (\<lambda>r. length r = T) rows"
  shows "flip_diff rows ! i ! j = rows ! i ! j - rows ! (length rows - Suc i) ! j"
proof -
  have "rows ! i \<in> set rows" "rows ! (length rows - Suc i) \<in> set rows"
    using assms(1) by simp_all
  then have "length (rows ! i) = T" "length (rows ! (length rows - Suc i)) = T"
    using assms(3) by (simp_all add: list_all_iff)
  then show ?thesis using assms(1,2) by (simp add: flip_diff_def rev_nth)
qed

lemma flip_diff_column_neg:
  assumes "list_all (\<lambda>r. length r = T) rows" "c \<in> set (columns (flip_diff rows) T)" "a \<in> set c"
  shows "- a \<in> set c"
proof -
  let ?Q = "length rows"
  from assms(2) obtain j where j: "j < T" "c = map (\<lambda>r. r ! j) (flip_diff rows)"
    by (auto simp: columns_def)
  from assms(3) j obtain i where i: "i < ?Q" "a = flip_diff rows ! i ! j"
    by (auto simp: in_set_conv_nth flip_diff_length)
  let ?k = "?Q - Suc i"
  have k: "?k < ?Q" "?Q - Suc ?k = i" using i(1) by simp_all
  have "flip_diff rows ! ?k ! j = - a"
    using flip_diff_nth[OF k(1) j(1) assms(1)] flip_diff_nth[OF i(1) j(1) assms(1)] i(2) k(2)
    by simp
  moreover have "c ! ?k = flip_diff rows ! ?k ! j" using j(2) k(1) by (simp add: flip_diff_length)
  moreover have "?k < length c" using j(2) k(1) by (simp add: flip_diff_length)
  ultimately show ?thesis by (metis nth_mem)
qed

lemma product_lists_neg:
  assumes "\<And>c a. c \<in> set cols \<Longrightarrow> a \<in> set c \<Longrightarrow> - a \<in> set (c :: real list)"
    and "p \<in> set (product_lists cols)"
  shows "map uminus p \<in> set (product_lists cols)"
proof -
  from assms(2) have a: "list_all2 (\<lambda>x ys. x \<in> set ys) p cols" by (simp add: product_lists_set)
  then have len: "length p = length cols" by (rule list_all2_lengthD)
  have "list_all2 (\<lambda>x ys. x \<in> set ys) (map uminus p) cols"
    unfolding list_all2_conv_all_nth
  proof (intro conjI allI impI)
    show "length (map uminus p) = length cols" using len by simp
  next
    fix i assume "i < length (map uminus p)"
    then have i: "i < length p" by simp
    then have "p ! i \<in> set (cols ! i)" using a by (simp add: list_all2_conv_all_nth)
    moreover have "cols ! i \<in> set cols" using i len by simp
    ultimately show "map uminus p ! i \<in> set (cols ! i)" using assms(1) i by simp
  qed
  then show ?thesis by (simp add: product_lists_set)
qed

lemma flipgrid_points_symmetric:
  assumes "list_all (\<lambda>r. length r = T) rows"
    and "p \<in> set (product_lists (columns (flip_diff rows) T))"
  shows "map uminus p \<in> set (product_lists (columns (flip_diff rows) T))"
  using assms(2) by (rule product_lists_neg[rotated]) (rule flip_diff_column_neg[OF assms(1)])

text \<open>
  Python as it runs by default (assertions on) and under \<open>python -O\<close> (assertions
  stripped), both with gpytorch's debug setting off.
\<close>

definition env_default :: env where
  "env_default = \<lparr>py_assertions = True, settings_debug = False\<rparr>"

definition env_optimized :: env where
  "env_optimized = \<lparr>py_assertions = False, settings_debug = False\<rparr>"

definition freegrid_2x2 :: layer where
  "freegrid_2x2 = \<lparr>input_dims = 2, output_dims = None, grid_strategy = ''freegrid'',
     num_sample_sites = 2, sample_site_dims = 2, xi = Some (mat [[- 1, - 1], [1, 1]])\<rparr>"

text \<open>
  C2. For a flipgrid or freegrid layer whose \<open>xi\<close> is a (Q x T) tensor, Q and T at least 1,
  the grid that \<open>quad_grid\<close> builds is the Cartesian product, in lexicographic order, of
  the T per-dimension vectors (of \<open>xi\<close> for freegrid, of \<open>xi - flip(xi)\<close> for flipgrid),
  with Q^T points of length T. The read returns it only when assertions are stripped;
  with assertions on, the read raises \<open>AttributeError\<close>.
\<close>

theorem quad_grid_cartesian_product:
  assumes "xi l = Some (mat rows)" and "rows \<noteq> []" and "0 < T"
    and "list_all (\<lambda>r. length r = T) rows"
  shows "(grid_strategy l = ''freegrid'' \<longrightarrow>
            quad_grid e l = (if py_assertions e then Inl (AttributeError ''quad_grid'')
                             else Inr (Some (mat (product_lists (columns rows T)))))) \<and>
         (grid_strategy l = ''flipgrid'' \<longrightarrow>
            quad_grid e l = (if py_assertions e then Inl (AttributeError ''quad_grid'')
                             else Inr (Some (mat (product_lists (columns (flip_diff rows) T)))))) \<and>
         length (product_lists (columns rows T)) = length rows ^ T \<and>
         length (product_lists (columns (flip_diff rows) T)) = length rows ^ T \<and>
         list_all (\<lambda>p. length p = T) (product_lists (columns rows T)) \<and>
         list_all (\<lambda>p. length p = T) (product_lists (columns (flip_diff rows) T))"
  using quad_grid_freegrid[OF _ assms] quad_grid_flipgrid[OF _ assms]
  by (simp add: grid_size flip_diff_length grid_points_lengths)

theorem quad_grid_cartesian_product_witness:
  "quad_grid env_default freegrid_2x2 = Inl (AttributeError ''quad_grid'') \<and>
   quad_grid env_optimized freegrid_2x2
     = Inr (Some (mat [[- 1, - 1], [- 1, 1], [1, - 1], [1, 1]]))"
  using quad_grid_cartesian_product[of freegrid_2x2 "[[- 1, - 1], [1, 1]]" 2 env_default]
        quad_grid_cartesian_product[of freegrid_2x2 "[[- 1, - 1], [1, 1]]" 2 env_optimized]
  by (simp add: freegrid_2x2_def env_default_def env_optimized_def columns_def upt_rec)

lemma grid_size_assert_fails:  "py_assertions e \<Longrightarrow> grid_size_assert e l res \<noteq> Inr u"
  by (cases "size_dim (- 2) res") (simp_all add: grid_size_assert_def ebind_def)

lemma ebind_Inr_iff: "ebind m f = Inr y \<longleftrightarrow> (\<exists>x. m = Inr x \<and> f x = Inr y)"
  by (cases m) (simp_all add: ebind_def)

lemma property_read_Inr_iff: "property_read name m = Inr y \<longleftrightarrow> m = Inr y"
  by (cases m) (auto simp: property_read_def split: error.splits)

lemma quad_grid_raises:
  assumes "py_assertions e"
    and "grid_strategy l = ''flipgrid'' \<or> grid_strategy l = ''freegrid''"
  shows "\<exists>err. quad_grid e l = Inl err"
proof (cases "quad_grid e l")
  case (Inl err)
  then show ?thesis by blast
next
  case (Inr g)
  then have g: "quad_grid_getter e l = Inr g"
    by (simp add: quad_grid_def property_read_Inr_iff)
  from assms(2) have False
  proof
    assume "grid_strategy l = ''flipgrid''"
    with g show False
      using grid_size_assert_fails[OF assms(1)]
      by (auto simp: quad_grid_getter_def ebind_Inr_iff)
  next
    assume "grid_strategy l = ''freegrid''"
    with g show False
      using grid_size_assert_fails[OF assms(1)]
      by (auto simp: quad_grid_getter_def ebind_Inr_iff)
  qed
  then show ?thesis ..
qed

text \<open>
  C3. With assertions on, every read of \<open>quad_grid\<close> on a flipgrid or freegrid layer
  raises: the grid-size assertion never holds, since evaluating it fails.
\<close>

theorem quad_grid_assertion_raises:
  assumes "py_assertions e"
    and "grid_strategy l = ''flipgrid'' \<or> grid_strategy l = ''freegrid''"
  shows "\<exists>err. quad_grid e l = Inl err"
  using assms by (rule quad_grid_raises)

text \<open>A flipgrid layer as constructed with three sites and one dimension from the
  abscissae \<open>-1, 0, 1\<close>.\<close>

definition gh_three :: "nat \<Rightarrow> real list \<times> real list" where
  "gh_three n = ([- 1, 0, 1], [1, 4, 1])"

definition flipgrid_init :: layer where
  "flipgrid_init = \<lparr>input_dims = 1, output_dims = None, grid_strategy = ''flipgrid'',
     num_sample_sites = 3, sample_site_dims = 1, xi = Some (mat [[- 0.5], [0], [0.5]])\<rparr>"

theorem quad_grid_assertion_raises_witness:
  "py_assertions env_default \<and> grid_strategy flipgrid_init = ''flipgrid'' \<and>
   (\<exists>err. quad_grid env_default flipgrid_init = Inl err)"
  using quad_grid_assertion_raises[of env_default flipgrid_init]
  by (simp add: env_default_def flipgrid_init_def)

text \<open>
  C8. For a flipgrid layer holding its initial \<open>xi\<close> (0.5 times the abscissae, repeated
  across the T dimensions), the grid realized by the flip-subtraction transform, that is
  the tensor lines 66 and 67 build from \<open>xi - xi.flip(dims=[0])\<close>, is symmetric about zero:
  with every point \<open>p\<close> it contains \<open>-p\<close>. It is the grid that a read of \<open>quad_grid\<close>
  returns whenever the read returns (with assertions on the read raises after the grid
  is built, which is the subject of C3).
\<close>

theorem flipgrid_symmetric:
  assumes "layer_init e0 gh rnd in_dims out_dims sites ''flipgrid'' None site_dims = Inr l"
    and "fst (gh (nat sites)) \<noteq> []"
    and "0 < sample_site_dims l"
  shows "ebind (get_xi l) (\<lambda>x. ebind (tensor_op (-) x (flip0 x)) grid_points)
           = Inr (mat (product_lists (columns (flip_diff
                   (map (\<lambda>a. replicate (sample_site_dims l) (0.5 * a)) (fst (gh (nat sites)))))
                   (sample_site_dims l)))) \<and>
         quad_grid e l =
           (if py_assertions e then Inl (AttributeError ''quad_grid'')
            else Inr (Some (mat (product_lists (columns (flip_diff
                   (map (\<lambda>a. replicate (sample_site_dims l) (0.5 * a)) (fst (gh (nat sites)))))
                   (sample_site_dims l)))))) \<and>
         (\<forall>p \<in> set (product_lists (columns (flip_diff
                   (map (\<lambda>a. replicate (sample_site_dims l) (0.5 * a)) (fst (gh (nat sites)))))
                   (sample_site_dims l))).
            map uminus p \<in> set (product_lists (columns (flip_diff
                   (map (\<lambda>a. replicate (sample_site_dims l) (0.5 * a)) (fst (gh (nat sites)))))
                   (sample_site_dims l))))"
proof -
  let ?T = "sample_site_dims l"
  let ?rows = "map (\<lambda>a. replicate ?T (0.5 * a)) (fst (gh (nat sites)))"
  have l: "grid_strategy l = ''flipgrid''" "xi l = Some (mat ?rows)"
    using layer_init_flipgrid[OF assms(1)] by simp_all
  have ne: "?rows \<noteq> []" using assms(2) by simp
  have rect: "list_all (\<lambda>r. length r = ?T) ?rows" by (simp add: list_all_iff)
  have d: "flip_diff ?rows \<noteq> []" using ne flip_diff_length[of ?rows] by auto
  have built: "ebind (get_xi l) (\<lambda>x. ebind (tensor_op (-) x (flip0 x)) grid_points)
                 = Inr (mat (product_lists (columns (flip_diff ?rows) ?T)))"
    by (simp only: get_xi_def l(2) option.case ebind_Inr flip_sub_mat[OF ne rect]
          grid_points_mat[OF d assms(3) flip_diff_rect[OF rect]])
  show ?thesis
    using built quad_grid_flipgrid[OF l ne assms(3) rect] flipgrid_points_symmetric[OF rect]
    by blast
qed

theorem flipgrid_symmetric_witness:
  "layer_init env_default gh_three (\<lambda>n. 0) 1 None 3 ''flipgrid'' None None = Inr flipgrid_init \<and>
   ebind (get_xi flipgrid_init) (\<lambda>x. ebind (tensor_op (-) x (flip0 x)) grid_points)
     = Inr (mat [[- 1], [0], [1]]) \<and>
   quad_grid env_default flipgrid_init = Inl (AttributeError ''quad_grid'') \<and>
   quad_grid env_optimized flipgrid_init = Inr (Some (mat [[- 1], [0], [1]])) \<and>
   map uminus [- 1] \<in> set [[- 1], [0], [1 :: real]]"
proof -
  have i: "layer_init env_default gh_three (\<lambda>n. 0) 1 None 3 ''flipgrid'' None None = Inr flipgrid_init"
    by (simp add: layer_init_def env_default_def hermgauss_def gh_three_def ebind_Inr
          replicate_abscissae_mat tmap_mat flipgrid_init_def)
  have g: "fst (gh_three (nat 3)) \<noteq> []" by (simp add: gh_three_def)
  have t: "0 < sample_site_dims flipgrid_init" by (simp add: flipgrid_init_def)
  from flipgrid_symmetric[OF i g t, of env_default] flipgrid_symmetric[OF i g t, of env_optimized] i
  show ?thesis
    by (simp add: flipgrid_init_def env_default_def env_optimized_def gh_three_def columns_def
          flip_diff_def)
qed

lemma layer_init_shared_xi:
  assumes "layer_init e gh rnd in_dims out_dims sites strategy (Some x) site_dims = Inr l"
  shows "grid_strategy l = strategy \<and> xi l = Some x"
  using assms by (auto simp: layer_init_def Let_def split: if_splits)

text \<open>
  C9. For a layer constructed with strategy freeform, order Q and dimensionality T,
  \<open>quad_grid\<close> returns the learnable tensor \<open>xi\<close> itself, whatever the assertion setting,
  with no Cartesian product and no size assertion. The tensor that the constructor
  creates (when no \<open>xi\<close> is passed in) has Q points, each of length T.
\<close>

theorem freeform_quad_grid:
  assumes "layer_init e0 gh rnd in_dims out_dims sites ''freeform'' xi_arg site_dims = Inr l"
  shows "quad_grid e l = Inr (xi l) \<and>
         (case xi_arg of
            Some x \<Rightarrow> xi l = Some x
          | None \<Rightarrow>
              xi l = Some (mat (map (\<lambda>i. map (\<lambda>j. rnd (i * sample_site_dims l + j))
                                   [0..<sample_site_dims l]) [0..<nat sites])) \<and>
              int (length (map (\<lambda>i. map (\<lambda>j. rnd (i * sample_site_dims l + j))
                                   [0..<sample_site_dims l]) [0..<nat sites])) = sites \<and>
              list_all (\<lambda>r. length r = sample_site_dims l)
                (map (\<lambda>i. map (\<lambda>j. rnd (i * sample_site_dims l + j))
                                   [0..<sample_site_dims l]) [0..<nat sites]) \<and>
              sample_site_dims l = (case site_dims of None \<Rightarrow> in_dims | Some d \<Rightarrow> d))"
proof (cases xi_arg)
  case None
  with assms show ?thesis
    using layer_init_freeform[of e0 gh rnd in_dims out_dims sites site_dims l]
          quad_grid_freeform[of l _ e]
    by (simp add: list_all_iff)
next
  case (Some x)
  with assms show ?thesis
    using layer_init_shared_xi[of e0 gh rnd in_dims out_dims sites "''freeform''" x site_dims l]
          quad_grid_freeform[of l x e]
    by simp
qed

definition freeform_3x2 :: layer where
  "freeform_3x2 = \<lparr>input_dims = 2, output_dims = None, grid_strategy = ''freeform'',
     num_sample_sites = 3, sample_site_dims = 2, xi = Some (mat [[0, 1], [2, 3], [4, 5]])\<rparr>"

theorem freeform_quad_grid_witness:
  "layer_init env_default gh_three real 2 None 3 ''freeform'' None None = Inr freeform_3x2 \<and>
   quad_grid env_default freeform_3x2 = Inr (Some (mat [[0, 1], [2, 3], [4, 5]]))"
proof -
  have i: "layer_init env_default gh_three real 2 None 3 ''freeform'' None None = Inr freeform_3x2"
    by (simp add: layer_init_def env_default_def randn2_def ebind_Inr freeform_3x2_def upt_rec)
  have "quad_grid env_default freeform_3x2 = Inr (xi freeform_3x2)"
    using freeform_quad_grid[OF i, of env_default] by simp
  then have "quad_grid env_default freeform_3x2 = Inr (Some (mat [[0, 1], [2, 3], [4, 5]]))"
    by (simp add: freeform_3x2_def)
  with i show ?thesis by blast
qed

subsection \<open>The quadrature-perturbed inputs\<close>

text \<open>
  The entries of \<open>mu + sigma * grid\<close> for a mean and a variance of shape (batch x dim) and a
  grid of shape (sites x dim), all given by their rows: the entry at site \<open>s\<close>, row \<open>i\<close>
  and dimension \<open>t\<close> is \<open>mu[i, t] + sqrt(variance[i, t]) * grid[s, t]\<close>.
\<close>

definition perturbed :: "real list list \<Rightarrow> real list list \<Rightarrow> real list list \<Rightarrow> real list list list" where
  "perturbed ms vs gs =
     map (\<lambda>g. map (\<lambda>(m, v). map (\<lambda>(a, b, c). a + sqrt b * c) (zip m (zip v g))) (zip ms vs)) gs"

lemma ndim_ten3: "xs \<noteq> [] \<Longrightarrow> hd xs \<noteq> [] \<Longrightarrow> ndim (ten3 xs) = 3"
  by (cases xs) (simp_all add: ten3_def ndim_mat)

lemma shape_ten3:
  "xs \<noteq> [] \<Longrightarrow> hd xs \<noteq> [] \<Longrightarrow> shape (ten3 xs) = [length xs, length (hd xs), length (hd (hd xs))]"
  by (cases xs) (simp_all add: ten3_def shape_mat)

lemma unsqueeze3_mat: "rows \<noteq> [] \<Longrightarrow> unsqueeze (- 3) (mat rows) = Inr (Nd [mat rows])"
  by (simp add: unsqueeze_def ndim_mat)

lemma unsqueeze2_mat:
  "rows \<noteq> [] \<Longrightarrow> unsqueeze (- 2) (mat rows) = Inr (Nd (map (\<lambda>g. Nd [vec g]) rows))"
  by (simp add: unsqueeze_def ndim_mat) (simp add: mat_def comp_def)

lemma bop_mat_row:
  assumes "rows \<noteq> []" "list_all (\<lambda>r. length r = T) rows" "length g = T"
  shows "bop f (mat rows) (Nd [vec g]) = mat (map (\<lambda>r. map (\<lambda>(a, b). f a b) (zip r g)) rows)"
proof -
  have len: "\<And>r. r \<in> set rows \<Longrightarrow> length r = length g"
    using assms(2,3) by (simp add: list_all_iff)
  have nd: "ndim (Nd [vec g]) = 2" by (simp add: ndim_vec)
  have "bop f (mat rows) (Nd [vec g]) = Nd (map (\<lambda>x. bop f x (vec g)) (map vec rows))"
  proof (cases rows)
    case Nil with assms(1) show ?thesis by simp
  next
    case (Cons r rs)
    then show ?thesis
      using ndim_mat[OF assms(1)] nd by (cases rs) (simp_all add: mat_def ndim_vec)
  qed
  also have "\<dots> = mat (map (\<lambda>r. map (\<lambda>(a, b). f a b) (zip r g)) rows)"
    using len by (simp add: mat_def comp_def bop_vec_vec)
  finally show ?thesis .
qed


lemma bop_one_many:
  "ys \<noteq> [] \<Longrightarrow> ndim (Nd [a]) = ndim (Nd ys) \<Longrightarrow> bop f (Nd [a]) (Nd ys) = Nd (map (bop f a) ys)"
  by (cases ys; cases "tl ys") auto

lemma bop_lower_rank:
  "ndim (Nd xs) < ndim (Nd ys) \<Longrightarrow> bop f (Nd xs) (Nd ys) = Nd (map (bop f (Nd xs)) ys)"
  by simp

lemma ndim_rows3: "gs \<noteq> [] \<Longrightarrow> ndim (Nd (map (\<lambda>g. Nd [vec g]) gs)) = 3"
  by (cases gs) (simp_all add: ndim_vec)

lemma shape_rows3:
  "gs \<noteq> [] \<Longrightarrow> shape (Nd (map (\<lambda>g. Nd [vec g]) gs)) = [length gs, 1, length (hd gs)]"
  by (cases gs) (simp_all add: shape_vec)

lemma broadcast_site_batch: "broadcast_shapes [Suc 0, n, T] [S, Suc 0, T] = Some [S, n, T]"
  by (auto simp: broadcast_shapes_def)

lemma broadcast_batch_site: "broadcast_shapes [n, T] [S, Suc 0, T] = Some [S, n, T]"
  by (auto simp: broadcast_shapes_def)

lemma broadcast_one_sites: "broadcast_shapes [Suc 0, n, T] [S, n, T] = Some [S, n, T]"
  by (auto simp: broadcast_shapes_def)

lemma broadcast_mat_ten3: "broadcast_shapes [n, T] [S, n, T] = Some [S, n, T]"
  by (auto simp: broadcast_shapes_def)

text \<open>The intermediate tensors \<open>sigma * grid\<close> and \<open>mu + x\<close>, by rows.\<close>

definition scaled :: "real list list \<Rightarrow> real list list \<Rightarrow> real list list list" where
  "scaled ss gs = map (\<lambda>g. map (\<lambda>s. map (\<lambda>(a, b). a * b) (zip s g)) ss) gs"

lemma scaled_ten3:
  assumes "ss \<noteq> []" "list_all (\<lambda>r. length r = T) ss" "list_all (\<lambda>g. length g = T) gs"
  shows "map (bop (*) (mat ss)) (map (\<lambda>g. Nd [vec g]) gs) = map mat (scaled ss gs)"
  using assms by (simp add: scaled_def list_all_iff bop_mat_row[OF assms(1,2)])

lemma hd_length: "xs \<noteq> [] \<Longrightarrow> list_all (\<lambda>r. length r = T) xs \<Longrightarrow> length (hd xs) = T"
  by (cases xs) simp_all

lemma mul_grid:
  assumes "ss \<noteq> []" "gs \<noteq> []" "list_all (\<lambda>r. length r = T) ss" "list_all (\<lambda>g. length g = T) gs"
  shows "tensor_op (*) (Nd [mat ss]) (Nd (map (\<lambda>g. Nd [vec g]) gs)) = Inr (ten3 (scaled ss gs))"
    and "tensor_op (*) (mat ss) (Nd (map (\<lambda>g. Nd [vec g]) gs)) = Inr (ten3 (scaled ss gs))"
proof -
  have sh: "shape (mat ss) = [length ss, T]" "shape (Nd (map (\<lambda>g. Nd [vec g]) gs)) = [length gs, Suc 0, T]"
    using assms by (simp_all add: shape_mat shape_rows3 hd_length)
  have nd: "ndim (Nd [mat ss]) = ndim (Nd (map (\<lambda>g. Nd [vec g]) gs))"
    using assms(1,2) by (simp add: ndim_mat ndim_rows3)
  have g: "map (\<lambda>g. Nd [vec g]) gs \<noteq> []" using assms(2) by simp
  have b1: "bop (*) (Nd [mat ss]) (Nd (map (\<lambda>g. Nd [vec g]) gs)) = ten3 (scaled ss gs)"
    by (simp only: bop_one_many[OF g nd] scaled_ten3[OF assms(1,3,4)] ten3_def)
  show "tensor_op (*) (Nd [mat ss]) (Nd (map (\<lambda>g. Nd [vec g]) gs)) = Inr (ten3 (scaled ss gs))"
    unfolding tensor_op_def b1 using sh by (simp add: broadcast_site_batch)
  have lt: "ndim (mat ss) < ndim (Nd (map (\<lambda>g. Nd [vec g]) gs))"
    using assms(1,2) ndim_mat[OF assms(1)] by (simp add: ndim_rows3)
  have b2: "bop (*) (mat ss) (Nd (map (\<lambda>g. Nd [vec g]) gs)) = ten3 (scaled ss gs)"
    using bop_lower_rank[OF lt[unfolded mat_def], of "(*)"] scaled_ten3[OF assms(1,3,4)]
    by (simp only: mat_def ten3_def)
  show "tensor_op (*) (mat ss) (Nd (map (\<lambda>g. Nd [vec g]) gs)) = Inr (ten3 (scaled ss gs))"
    unfolding tensor_op_def b2 using sh by (simp add: broadcast_batch_site)
qed


lemma scaled_rect:
  assumes "list_all (\<lambda>r. length r = T) ss" "list_all (\<lambda>g. length g = T) gs"
  shows "list_all (\<lambda>x. length x = length ss \<and> list_all (\<lambda>r. length r = T) x) (scaled ss gs)"
  using assms by (simp add: scaled_def list_all_iff)

definition shifted :: "real list list \<Rightarrow> real list list list \<Rightarrow> real list list list" where
  "shifted ms xs = map (\<lambda>x. map (\<lambda>(m, r). map (\<lambda>(a, b). a + b) (zip m r)) (zip ms x)) xs"

lemma shifted_ten3:
  assumes "ms \<noteq> []" "list_all (\<lambda>r. length r = T) ms"
    and "list_all (\<lambda>x. length x = length ms \<and> list_all (\<lambda>r. length r = T) x) xs"
  shows "map (bop (+) (mat ms)) (map mat xs) = map mat (shifted ms xs)"
proof -
  have "bop (+) (mat ms) (mat x) = mat (map (\<lambda>(m, r). map (\<lambda>(a, b). a + b) (zip m r)) (zip ms x))"
    if "x \<in> set xs" for x
    using that assms(3) bop_mat_mat[of ms x T "(+)"] assms(1,2) by (simp add: list_all_iff)
  then show ?thesis by (simp add: shifted_def)
qed

lemma add_mean:
  assumes "ms \<noteq> []" "xs \<noteq> []" "list_all (\<lambda>r. length r = T) ms"
    and "list_all (\<lambda>x. length x = length ms \<and> list_all (\<lambda>r. length r = T) x) xs"
  shows "tensor_op (+) (Nd [mat ms]) (ten3 xs) = Inr (ten3 (shifted ms xs))"
    and "tensor_op (+) (mat ms) (ten3 xs) = Inr (ten3 (shifted ms xs))"
proof -
  have hx: "hd xs \<noteq> []" "length (hd xs) = length ms" "length (hd (hd xs)) = T"
  proof -
    have h: "hd xs \<in> set xs" using assms(2) by simp
    then have l: "length (hd xs) = length ms" "list_all (\<lambda>r. length r = T) (hd xs)"
      using assms(4) by (simp_all add: list_all_iff)
    then show "hd xs \<noteq> []" "length (hd xs) = length ms" using assms(1) by auto
    then show "length (hd (hd xs)) = T" using l(2) by (simp add: hd_length)
  qed
  have sh: "shape (mat ms) = [length ms, T]" "shape (ten3 xs) = [length xs, length ms, T]"
    using assms(1-3) hx by (simp_all add: shape_mat shape_ten3 hd_length)
  have x: "map mat xs \<noteq> []" using assms(2) by simp
  have nd: "ndim (Nd [mat ms]) = ndim (Nd (map mat xs))"
    using assms(1,2) hx(1) ndim_ten3[of xs] by (simp add: ndim_mat ten3_def)
  have b1: "bop (+) (Nd [mat ms]) (ten3 xs) = ten3 (shifted ms xs)"
    by (simp only: ten3_def bop_one_many[OF x nd] shifted_ten3[OF assms(1,3,4)])
  show "tensor_op (+) (Nd [mat ms]) (ten3 xs) = Inr (ten3 (shifted ms xs))"
    unfolding tensor_op_def b1 using sh by (simp add: broadcast_one_sites)
  have lt: "ndim (mat ms) < ndim (Nd (map mat xs))"
    using assms(1,2) hx(1) ndim_ten3[of xs] by (simp add: ndim_mat ten3_def)
  have "bop (+) (Nd (map vec ms)) (Nd (map mat xs)) = Nd (map (bop (+) (Nd (map vec ms))) (map mat xs))"
    by (rule bop_lower_rank) (use lt in \<open>simp only: mat_def[of ms]\<close>)
  then have b2: "bop (+) (mat ms) (ten3 xs) = ten3 (shifted ms xs)"
    using shifted_ten3[OF assms(1,3,4)] by (simp only: mat_def[of ms] ten3_def)
  show "tensor_op (+) (mat ms) (ten3 xs) = Inr (ten3 (shifted ms xs))"
    unfolding tensor_op_def b2 using sh by (simp add: broadcast_mat_ten3)
qed

lemma perturbed_eq:
  "length ms = length vs \<Longrightarrow> shifted ms (scaled (map (map sqrt) vs) gs) = perturbed ms vs gs"
  by (simp add: shifted_def scaled_def perturbed_def zip_map2 zip_map1 split_def comp_def)


lemma perturbed_nth:
  assumes "s < length gs" "i < length ms" "length vs = length ms"
    and "t < length (ms ! i)" "length (vs ! i) = length (ms ! i)" "length (gs ! s) = length (ms ! i)"
  shows "perturbed ms vs gs ! s ! i ! t = ms ! i ! t + sqrt (vs ! i ! t) * gs ! s ! t"
  using assms by (simp add: perturbed_def)

lemma quad_inputs_value:
  assumes "quad_grid e l = Inr (Some (mat gs))"
    and "ms \<noteq> []" "gs \<noteq> []" "length vs = length ms"
    and "list_all (\<lambda>r. length r = T) ms" "list_all (\<lambda>r. length r = T) vs"
    and "list_all (\<lambda>r. length r = T) gs"
  shows "quad_inputs e l (Dist (mat ms) (mat vs)) b = Inr (Tens (ten3 (perturbed ms vs gs)))"
proof -
  let ?ss = "map (map sqrt) vs"
  have vne: "vs \<noteq> []" "?ss \<noteq> []" using assms(2,4) by auto
  have srect: "list_all (\<lambda>r. length r = T) ?ss" using assms(6) by (simp add: list_all_iff)
  have xne: "scaled ?ss gs \<noteq> []" using assms(3) by (simp add: scaled_def)
  have xrect: "list_all (\<lambda>x. length x = length ms \<and> list_all (\<lambda>r. length r = T) x) (scaled ?ss gs)"
    using scaled_rect[OF srect assms(7)] assms(4) by simp
  note mul = mul_grid[OF vne(2) assms(3) srect assms(7)]
  note add = add_mean[OF assms(2) xne assms(5) xrect]
  show ?thesis
    using assms(1,4)
    by (cases b)
       (simp_all add: quad_inputs_def Let_def tmap_mat unsqueeze3_mat[OF assms(2)]
          unsqueeze3_mat[OF vne(2)] unsqueeze2_mat[OF assms(3)] ebind_Inr mul add perturbed_eq)
qed

lemma quad_inputs_grid_error:
  assumes "quad_grid e l = Inl err" and "ms \<noteq> []" "vs \<noteq> []"
  shows "quad_inputs e l (Dist (mat ms) (mat vs)) b = Inl err"
  using assms
  by (cases b)
     (simp_all add: quad_inputs_def Let_def tmap_mat unsqueeze3_mat ebind_Inr ebind_Inl)

text \<open>
  A mean and a variance that already carry the site axis, of shape (sites x batch x dim),
  as a caller passes them with \<open>expand_for_quadgrid=False\<close>: site \<open>s\<close> of the inputs meets
  grid point \<open>s\<close>.
\<close>

definition scaled_aligned :: "real list list list \<Rightarrow> real list list \<Rightarrow> real list list list" where
  "scaled_aligned sss gs = map (\<lambda>(ss, g). map (\<lambda>s. map (\<lambda>(a, b). a * b) (zip s g)) ss) (zip sss gs)"

definition shifted_aligned :: "real list list list \<Rightarrow> real list list list \<Rightarrow> real list list list" where
  "shifted_aligned mss xss =
     map (\<lambda>(ms, x). map (\<lambda>(m, r). map (\<lambda>(a, b). a + b) (zip m r)) (zip ms x)) (zip mss xss)"

definition perturbed_aligned ::
  "real list list list \<Rightarrow> real list list list \<Rightarrow> real list list \<Rightarrow> real list list list" where
  "perturbed_aligned mss vss gs =
     map (\<lambda>(ms, vs, g). map (\<lambda>(m, v). map (\<lambda>(a, b, c). a + sqrt b * c) (zip m (zip v g))) (zip ms vs))
       (zip mss (zip vss gs))"

text \<open>A tensor of shape (sites x n x T), by its rows.\<close>

definition cube :: "nat \<Rightarrow> nat \<Rightarrow> real list list list \<Rightarrow> bool" where
  "cube n T xss = list_all (\<lambda>xs. length xs = n \<and> list_all (\<lambda>r. length r = T) xs) xss"

lemma tmap_ten3: "tmap f (ten3 xs) = ten3 (map (map (map f)) xs)"
  by (simp add: ten3_def tmap_mat comp_def)

lemma bop_zip:
  "length xs = length ys \<Longrightarrow> ndim (Nd xs) = ndim (Nd ys) \<Longrightarrow>
   bop f (Nd xs) (Nd ys) = Nd (map (\<lambda>(x, y). bop f x y) (zip xs ys))"
  by simp

lemma broadcast_sites_row: "broadcast_shapes [S, n, T] [S, Suc 0, T] = Some [S, n, T]"
  by (auto simp: broadcast_shapes_def)

lemma cube_elem:
  "cube n T xss \<Longrightarrow> 0 < n \<Longrightarrow> xs \<in> set xss \<Longrightarrow>
   xs \<noteq> [] \<and> length xs = n \<and> list_all (\<lambda>r. length r = T) xs"
  by (auto simp: cube_def list_all_iff)

lemma cube_shape:
  assumes "cube n T xss" "0 < n" "xss \<noteq> []"
  shows "shape (ten3 xss) = [length xss, n, T]" and "ndim (ten3 xss) = 3"
proof -
  have h: "hd xss \<noteq> []" "length (hd xss) = n" "list_all (\<lambda>r. length r = T) (hd xss)"
    using cube_elem[OF assms(1,2) hd_in_set[OF assms(3)]] by simp_all
  show "shape (ten3 xss) = [length xss, n, T]"
    using shape_ten3[OF assms(3) h(1)] h(2) hd_length[OF h(1,3)] by simp
  show "ndim (ten3 xss) = 3" by (rule ndim_ten3[OF assms(3) h(1)])
qed

lemma mul_aligned:
  assumes "cube n T sss" "0 < n" "gs \<noteq> []" "length sss = length gs"
    and "list_all (\<lambda>r. length r = T) gs"
  shows "tensor_op (*) (ten3 sss) (Nd (map (\<lambda>g. Nd [vec g]) gs)) = Inr (ten3 (scaled_aligned sss gs))"
proof -
  have ne: "sss \<noteq> []" using assms(3,4) by auto
  have nd: "ndim (Nd (map mat sss)) = ndim (Nd (map (\<lambda>g. Nd [vec g]) gs))"
    using cube_shape(2)[OF assms(1,2) ne] ndim_rows3[OF assms(3)] by (simp add: ten3_def)
  have el: "bop (*) (mat ss) (Nd [vec g]) = mat (map (\<lambda>s. map (\<lambda>(a, b). a * b) (zip s g)) ss)"
    if "(ss, g) \<in> set (zip sss gs)" for ss g
  proof -
    have "ss \<in> set sss" "g \<in> set gs" using that by (auto dest: set_zip_leftD set_zip_rightD)
    then show ?thesis
      using bop_mat_row[of ss T g "(*)"] cube_elem[OF assms(1,2), of ss] assms(5)
      by (simp add: list_all_iff)
  qed
  have "bop (*) (Nd (map mat sss)) (Nd (map (\<lambda>g. Nd [vec g]) gs))
          = Nd (map (\<lambda>(x, y). bop (*) x y) (zip (map mat sss) (map (\<lambda>g. Nd [vec g]) gs)))"
    by (rule bop_zip) (use assms(4) nd in simp_all)
  also have "\<dots> = Nd (map (\<lambda>(ss, g). bop (*) (mat ss) (Nd [vec g])) (zip sss gs))"
    by (simp add: zip_map_map comp_def split_def)
  also have "\<dots> = Nd (map (\<lambda>(ss, g). mat (map (\<lambda>s. map (\<lambda>(a, b). a * b) (zip s g)) ss)) (zip sss gs))"
    using el by (auto simp: split_def)
  also have "\<dots> = ten3 (scaled_aligned sss gs)"
    by (simp add: ten3_def scaled_aligned_def comp_def split_def)
  finally have b: "bop (*) (ten3 sss) (Nd (map (\<lambda>g. Nd [vec g]) gs)) = ten3 (scaled_aligned sss gs)"
    by (simp only: ten3_def)
  have shq: "shape (Nd (map (\<lambda>g. Nd [vec g]) gs)) = [length gs, Suc 0, T]"
    using assms(3,5) by (simp add: shape_rows3 hd_length)
  show ?thesis
    unfolding tensor_op_def b
    using cube_shape(1)[OF assms(1,2) ne] shq assms(4) by (simp add: broadcast_sites_row)
qed

lemma scaled_aligned_cube:
  assumes "cube n T sss" "list_all (\<lambda>r. length r = T) gs"
  shows "cube n T (scaled_aligned sss gs)"
proof -
  have "length x = n \<and> list_all (\<lambda>r. length r = T) x" if "x \<in> set (scaled_aligned sss gs)" for x
  proof -
    from that obtain ss g where sg: "(ss, g) \<in> set (zip sss gs)"
      and x: "x = map (\<lambda>s. map (\<lambda>(a, b). a * b) (zip s g)) ss"
      by (auto simp: scaled_aligned_def)
    have "ss \<in> set sss" "g \<in> set gs" using sg by (auto dest: set_zip_leftD set_zip_rightD)
    then show ?thesis using assms x by (auto simp: cube_def list_all_iff)
  qed
  then show ?thesis by (simp add: cube_def list_all_iff)
qed

lemma add_aligned:
  assumes "cube n T mss" "cube n T xss" "0 < n" "mss \<noteq> []" "length xss = length mss"
  shows "tensor_op (+) (ten3 mss) (ten3 xss) = Inr (ten3 (shifted_aligned mss xss))"
proof -
  have xne: "xss \<noteq> []" using assms(4,5) by auto
  have nd: "ndim (Nd (map mat mss)) = ndim (Nd (map mat xss))"
    using cube_shape(2)[OF assms(1,3,4)] cube_shape(2)[OF assms(2,3) xne] by (simp add: ten3_def)
  have el: "bop (+) (mat ms) (mat x) = mat (map (\<lambda>(m, r). map (\<lambda>(a, b). a + b) (zip m r)) (zip ms x))"
    if "(ms, x) \<in> set (zip mss xss)" for ms x
  proof -
    have "ms \<in> set mss" "x \<in> set xss" using that by (auto dest: set_zip_leftD set_zip_rightD)
    then show ?thesis
      using bop_mat_mat[of ms x T "(+)"] cube_elem[OF assms(1,3), of ms] cube_elem[OF assms(2,3), of x]
      by simp
  qed
  have "bop (+) (Nd (map mat mss)) (Nd (map mat xss))
          = Nd (map (\<lambda>(x, y). bop (+) x y) (zip (map mat mss) (map mat xss)))"
    by (rule bop_zip) (use assms(5) nd in simp_all)
  also have "\<dots> = Nd (map (\<lambda>(ms, x). bop (+) (mat ms) (mat x)) (zip mss xss))"
    by (simp add: zip_map_map comp_def split_def)
  also have "\<dots> = Nd (map (\<lambda>(ms, x). mat (map (\<lambda>(m, r). map (\<lambda>(a, b). a + b) (zip m r)) (zip ms x))) (zip mss xss))"
    using el by (auto simp: split_def)
  also have "\<dots> = ten3 (shifted_aligned mss xss)"
    by (simp add: ten3_def shifted_aligned_def comp_def split_def)
  finally have b: "bop (+) (ten3 mss) (ten3 xss) = ten3 (shifted_aligned mss xss)"
    by (simp only: ten3_def)
  show ?thesis
    unfolding tensor_op_def b
    using cube_shape(1)[OF assms(1,3,4)] cube_shape(1)[OF assms(2,3) xne] assms(5)
    by (simp add: broadcast_shapes_same)
qed

lemma perturbed_aligned_eq:
  "length vss = length gs \<Longrightarrow>
   shifted_aligned mss (scaled_aligned (map (map (map sqrt)) vss) gs) = perturbed_aligned mss vss gs"
  by (simp add: shifted_aligned_def scaled_aligned_def perturbed_aligned_def zip_map2 zip_map1
        split_def comp_def)

lemma quad_inputs_prealigned:
  assumes "quad_grid e l = Inr (Some (mat gs))"
    and "gs \<noteq> []" and "length mss = length gs" and "length vss = length gs" and "0 < n"
    and "cube n T mss" and "cube n T vss" and "list_all (\<lambda>r. length r = T) gs"
  shows "quad_inputs e l (Dist (ten3 mss) (ten3 vss)) False
           = Inr (Tens (ten3 (perturbed_aligned mss vss gs)))"
proof -
  let ?sss = "map (map (map sqrt)) vss"
  have sc: "cube n T ?sss" using assms(7) by (simp add: cube_def list_all_iff)
  have mne: "mss \<noteq> []" using assms(2,3) by auto
  have mul: "tensor_op (*) (ten3 ?sss) (Nd (map (\<lambda>g. Nd [vec g]) gs)) = Inr (ten3 (scaled_aligned ?sss gs))"
    by (rule mul_aligned[OF sc assms(5,2) _ assms(8)]) (simp add: assms(4))
  have xl: "length (scaled_aligned ?sss gs) = length mss"
    using assms(3,4) by (simp add: scaled_aligned_def)
  have add: "tensor_op (+) (ten3 mss) (ten3 (scaled_aligned ?sss gs))
               = Inr (ten3 (perturbed_aligned mss vss gs))"
    using add_aligned[OF assms(6) scaled_aligned_cube[OF sc assms(8)] assms(5) mne xl]
    by (simp only: perturbed_aligned_eq[OF assms(4)])
  show ?thesis
    by (simp only: quad_inputs_def Let_def input.case if_False tmap_ten3 assms(1) ebind_Inr
          option.case unsqueeze2_mat[OF assms(2)] mul add prod.case)
qed

text \<open>
  C5. For a distribution input with mean and variance of shape (batch x dim): when the
  layer's grid can be read, as a (sites x dim) tensor, the tensor handed on is
  \<open>mu + sqrt(variance) * grid\<close> of shape (sites x batch x dim), with
  \<open>expand_for_quadgrid\<close> on or off. On a flipgrid or freegrid layer with assertions on,
  the call raises instead, since the grid cannot be read.
\<close>

theorem quad_inputs_perturbed:
  assumes "ms \<noteq> []" and "length vs = length ms"
    and "list_all (\<lambda>r. length r = T) ms" and "list_all (\<lambda>r. length r = T) vs"
    and "list_all (list_all (\<lambda>v. 0 \<le> v)) vs"
  shows "(quad_grid e l = Inr (Some (mat gs)) \<and> gs \<noteq> [] \<and> list_all (\<lambda>r. length r = T) gs \<longrightarrow>
            quad_inputs e l (Dist (mat ms) (mat vs)) b = Inr (Tens (ten3 (perturbed ms vs gs)))) \<and>
         (py_assertions e \<and> (grid_strategy l = ''flipgrid'' \<or> grid_strategy l = ''freegrid'') \<longrightarrow>
            (\<exists>err. quad_inputs e l (Dist (mat ms) (mat vs)) b = Inl err))"
proof (intro conjI impI)
  assume "quad_grid e l = Inr (Some (mat gs)) \<and> gs \<noteq> [] \<and> list_all (\<lambda>r. length r = T) gs"
  then show "quad_inputs e l (Dist (mat ms) (mat vs)) b = Inr (Tens (ten3 (perturbed ms vs gs)))"
    using quad_inputs_value[of e l gs ms vs T b] assms(1-4) by blast
next
  assume a: "py_assertions e \<and> (grid_strategy l = ''flipgrid'' \<or> grid_strategy l = ''freegrid'')"
  then obtain err where "quad_grid e l = Inl err" using quad_grid_raises by blast
  moreover have "vs \<noteq> []" using assms(1,2) by auto
  ultimately show "\<exists>err. quad_inputs e l (Dist (mat ms) (mat vs)) b = Inl err"
    using quad_inputs_grid_error[of e l err ms vs b] assms(1) by blast
qed

theorem quad_inputs_perturbed_witness:
  "quad_inputs env_default freeform_3x2 (Dist (mat [[10, 20]]) (mat [[1, 4]])) True
     = Inr (Tens (ten3 [[[10, 22]], [[12, 26]], [[14, 30]]])) \<and>
   (\<exists>err. quad_inputs env_default flipgrid_init (Dist (mat [[10, 20]]) (mat [[1, 4]])) True = Inl err)"
proof -
  have g: "quad_grid env_default freeform_3x2 = Inr (Some (mat [[0, 1], [2, 3], [4, 5]]))"
    by (rule quad_grid_freeform) (simp_all add: freeform_3x2_def)
  have p: "perturbed [[10, 20]] [[1, 4]] [[0, 1], [2, 3], [4, 5]] = [[[10, 22]], [[12, 26]], [[14, 30]]]"
    by (simp add: perturbed_def)
  from quad_inputs_perturbed[of "[[10, 20]]" "[[1, 4]]" 2 env_default freeform_3x2
         "[[0, 1], [2, 3], [4, 5]]" True] g p
  have a: "quad_inputs env_default freeform_3x2 (Dist (mat [[10, 20]]) (mat [[1, 4]])) True
     = Inr (Tens (ten3 [[[10, 22]], [[12, 26]], [[14, 30]]]))"
    by simp
  from quad_inputs_perturbed[of "[[10, 20]]" "[[1, 4]]" 2 env_default flipgrid_init "[]" True]
  have b: "\<exists>err. quad_inputs env_default flipgrid_init (Dist (mat [[10, 20]]) (mat [[1, 4]])) True = Inl err"
    by (simp add: env_default_def flipgrid_init_def)
  from a b show ?thesis by blast
qed

subsection \<open>The debug checks\<close>

lemma debug_checks_wrong_type:
  "settings_debug e \<Longrightarrow> call_inputs e l (Obj c) [] b = Inl (AttributeError ''__Name__'')"
  by (simp add: call_inputs_def quad_inputs_def append_other_inputs_def debug_checks_def ebind_Inr
        ebind_Inl class_attribute_def)

lemma debug_checks_shape_mismatch:
  "settings_debug e \<Longrightarrow> rows \<noteq> [] \<Longrightarrow> length (hd rows) \<noteq> input_dims l \<Longrightarrow>
   call_inputs e l (Tens (mat rows)) [] b =
     Inl (RuntimeError (shape_mismatch_message (length (hd rows)) (input_dims l)))"
  by (simp add: call_inputs_def quad_inputs_def append_other_inputs_def debug_checks_def ebind_Inr
        ebind_Inl size_dim_def ndim_mat shape_mat)

lemma debug_checks_off:
  "\<not> settings_debug e \<Longrightarrow> call_inputs e l (Obj c) [] b = Inr (Obj c)"
  "\<not> settings_debug e \<Longrightarrow> call_inputs e l (Tens t) [] b = Inr (Tens t)"
  by (simp_all add: call_inputs_def quad_inputs_def append_other_inputs_def debug_checks_def ebind_Inr)

text \<open>
  C10. With debug mode on, an input that is neither a distribution nor a tensor makes
  \<open>__call__\<close> raise \<open>AttributeError\<close> for \<open>__Name__\<close> while it builds the message, so
  the \<open>ValueError\<close> naming the class is never raised; a wrong feature size raises
  \<open>RuntimeError\<close> with the observed and the expected size. With debug mode off neither
  check runs.
\<close>

theorem debug_checks_behaviour:
  "(settings_debug e \<longrightarrow> call_inputs e l (Obj c) [] b = Inl (AttributeError ''__Name__'')) \<and>
   (settings_debug e \<and> rows \<noteq> [] \<and> length (hd rows) \<noteq> input_dims l \<longrightarrow>
      call_inputs e l (Tens (mat rows)) [] b =
        Inl (RuntimeError (shape_mismatch_message (length (hd rows)) (input_dims l)))) \<and>
   (\<not> settings_debug e \<longrightarrow>
      call_inputs e l (Obj c) [] b = Inr (Obj c) \<and> call_inputs e l (Tens t) [] b = Inr (Tens t))"
  using debug_checks_wrong_type[of e l c b] debug_checks_shape_mismatch[of e rows l b]
        debug_checks_off(1)[of e l c b] debug_checks_off(2)[of e l t b]
  by blast

definition env_debug :: env where
  "env_debug = \<lparr>py_assertions = True, settings_debug = True\<rparr>"

theorem debug_checks_behaviour_witness:
  "call_inputs env_debug freeform_3x2 (Obj ''list'') [] True = Inl (AttributeError ''__Name__'') \<and>
   call_inputs env_debug freeform_3x2 (Tens (mat [[1, 2, 3]])) [] True =
     Inl (RuntimeError
       ''Input shape did not match self.input_dims. Got total feature dims [3], expected [2]'') \<and>
   call_inputs env_default freeform_3x2 (Obj ''list'') [] True = Inr (Obj ''list'')"
proof -
  have d: "settings_debug env_debug" "\<not> settings_debug env_default"
    by (simp_all add: env_debug_def env_default_def)
  have m: "shape_mismatch_message (Suc (Suc (Suc 0))) 2 =
      ''Input shape did not match self.input_dims. Got total feature dims [3], expected [2]''"
    by (simp add: shape_mismatch_message_def)
  from debug_checks_behaviour[of env_debug freeform_3x2 "''list''" True "[[1, 2, 3]]" "Sc 0"]
       debug_checks_behaviour[of env_default freeform_3x2 "''list''" True "[[1, 2, 3]]" "Sc 0"]
       d m
  show ?thesis by (simp add: freeform_3x2_def)
qed

subsection \<open>The extra inputs\<close>

lemma expand_other_input_sites:
  "0 \<le> num_sample_sites l \<Longrightarrow>
   expand_other_input l inp = Inr (Nd (replicate (nat (num_sample_sites l)) inp))"
  by (simp add: expand_other_input_def expand_leading_def)

lemma grid_2x2:
  "quad_grid env_optimized freegrid_2x2 = Inr (Some (mat [[- 1, - 1], [- 1, 1], [1, - 1], [1, 1]]))"
  using quad_grid_freegrid[of freegrid_2x2 "[[- 1, - 1], [1, 1]]" 2 env_optimized]
  by (simp add: freegrid_2x2_def env_optimized_def columns_def upt_rec)

lemma ndim_Nd_pos: "ndim (Nd xs) \<noteq> 0"
  by (cases xs) simp_all

lemma emap_expand:
  "0 \<le> num_sample_sites l \<Longrightarrow>
   emap (expand_other_input l) others
     = Inr (map (\<lambda>inp. Nd (replicate (nat (num_sample_sites l)) inp)) others)"
  by (rule emap_total) (simp add: expand_other_input_sites)

lemma shape_replicate:
  "shape (Nd (replicate n x)) = (if n = 0 then [0] else n # shape x)"
  by (cases n) simp_all

lemma butlast_shape_expanded:
  "butlast (shape (Nd (replicate n x))) \<noteq> [S, k]" if "n \<noteq> S"
  using that by (cases "shape x") (auto simp: shape_replicate)

lemma append_other_inputs_mismatch:
  assumes "0 \<le> num_sample_sites l" and "xs \<noteq> []" and "hd xs \<noteq> []"
    and "length xs \<noteq> nat (num_sample_sites l)" and "others \<noteq> []"
  shows "append_other_inputs l (Tens (ten3 xs)) others
           = Inl (RuntimeError ''Sizes of tensors must match except in dimension -1'')"
proof -
  let ?Q = "nat (num_sample_sites l)"
  let ?p = "map (\<lambda>inp. Nd (replicate ?Q inp)) others"
  obtain o1 os where o: "others = o1 # os" using assms(5) by (cases others) auto
  have nz: "\<not> list_ex (\<lambda>t. ndim t = 0) (ten3 xs # ?p)"
    using ndim_ten3[OF assms(2,3)] by (auto simp: list_ex_iff ndim_Nd_pos)
  have "butlast (shape (Nd (replicate ?Q o1))) \<noteq> butlast (shape (ten3 xs))"
    using butlast_shape_expanded[of ?Q "length xs" o1 "length (hd xs)"] assms(4)
    by (simp add: shape_ten3[OF assms(2,3)])
  then have "\<not> list_all (\<lambda>t. butlast (shape t) = butlast (shape (hd (ten3 xs # ?p)))) (ten3 xs # ?p)"
    using o by simp
  with nz have "cat_last (ten3 xs # ?p)
      = Inl (RuntimeError ''Sizes of tensors must match except in dimension -1'')"
    by (simp add: cat_last_def)
  then show ?thesis
    using assms(5) by (simp add: append_other_inputs_def emap_expand[OF assms(1)] ebind_Inr ebind_Inl)
qed

lemma power_neq_self: "2 \<le> (q::nat) \<Longrightarrow> 2 \<le> T \<Longrightarrow> q ^ T \<noteq> q"
proof -
  assume q: "2 \<le> q" and t: "2 \<le> T"
  have "q ^ 1 < q ^ T" using q t by (intro power_strict_increasing) auto
  then show ?thesis by simp
qed

lemma perturbed_length: "length (perturbed ms vs gs) = length gs"
  by (simp add: perturbed_def)

lemma hd_perturbed_nonempty:
  "gs \<noteq> [] \<Longrightarrow> ms \<noteq> [] \<Longrightarrow> length vs = length ms \<Longrightarrow> hd (perturbed ms vs gs) \<noteq> []"
  by (cases gs; cases ms; cases vs) (simp_all add: perturbed_def)

lemma quad_grid_optimized:
  assumes "grid_strategy l = ''flipgrid'' \<or> grid_strategy l = ''freegrid''"
    and "xi l = Some (mat rows)" and "rows \<noteq> []" and "0 < T"
    and "list_all (\<lambda>r. length r = T) rows" and "\<not> py_assertions e"
  shows "\<exists>pts. quad_grid e l = Inr (Some (mat pts)) \<and> pts \<noteq> [] \<and>
               length pts = length rows ^ T \<and> list_all (\<lambda>p. length p = T) pts"
  using assms(1)
proof
  assume "grid_strategy l = ''flipgrid''"
  then have "quad_grid e l = Inr (Some (mat (product_lists (columns (flip_diff rows) T))))"
    using quad_grid_flipgrid[OF _ assms(2-5), of e] assms(6) by simp
  moreover have "flip_diff rows \<noteq> []" using assms(3) flip_diff_length[of rows] by auto
  ultimately show ?thesis
    using grid_nonempty[of "flip_diff rows" T] grid_size[of "flip_diff rows" T]
          grid_points_lengths[of T "flip_diff rows"] flip_diff_length[of rows]
    by (intro exI[of _ "product_lists (columns (flip_diff rows) T)"]) simp
next
  assume "grid_strategy l = ''freegrid''"
  then have "quad_grid e l = Inr (Some (mat (product_lists (columns rows T))))"
    using quad_grid_freegrid[OF _ assms(2-5), of e] assms(6) by simp
  then show ?thesis
    using grid_nonempty[OF assms(3), of T] grid_size[of rows T] grid_points_lengths[of T rows]
    by (intro exI[of _ "product_lists (columns rows T)"]) simp
qed

text \<open>
  C7. Every extra input is expanded to \<open>num_sample_sites\<close> = Q copies. On a flipgrid or
  freegrid layer of order Q and dimensionality T, both at least 2, the grid has Q^T
  sites and so have the quadrature-expanded inputs; the concatenation raises
  \<open>RuntimeError\<close>: for a distribution input (assertions stripped, so that the grid can be
  read) and, whatever the settings, for a tensor input that carries the Q^T sites.
\<close>

theorem other_inputs_site_mismatch:
  assumes "grid_strategy l = ''flipgrid'' \<or> grid_strategy l = ''freegrid''"
    and "xi l = Some (mat rows)" and "num_sample_sites l = int (length rows)"
    and "2 \<le> length rows" and "2 \<le> T" and "list_all (\<lambda>r. length r = T) rows"
    and "\<not> py_assertions e"
    and "ms \<noteq> []" and "length vs = length ms"
    and "list_all (\<lambda>r. length r = T) ms" and "list_all (\<lambda>r. length r = T) vs"
    and "other_inputs \<noteq> []"
  shows "\<exists>pts. quad_grid e l = Inr (Some (mat pts)) \<and> length pts = length rows ^ T \<and>
           emap (expand_other_input l) other_inputs
             = Inr (map (\<lambda>inp. Nd (replicate (length rows) inp)) other_inputs) \<and>
           call_inputs e l (Dist (mat ms) (mat vs)) other_inputs b
             = Inl (RuntimeError ''Sizes of tensors must match except in dimension -1'') \<and>
           call_inputs e' l (Tens (ten3 (perturbed ms vs pts))) other_inputs b'
             = Inl (RuntimeError ''Sizes of tensors must match except in dimension -1'')"
proof -
  have ne: "rows \<noteq> []" and tpos: "0 < T" using assms(4,5) by auto
  from quad_grid_optimized[OF assms(1,2) ne tpos assms(6,7)]
  obtain pts where g: "quad_grid e l = Inr (Some (mat pts))" and pne: "pts \<noteq> []"
    and len: "length pts = length rows ^ T" and rect: "list_all (\<lambda>p. length p = T) pts"
    by blast
  have q: "quad_inputs e l (Dist (mat ms) (mat vs)) b = Inr (Tens (ten3 (perturbed ms vs pts)))"
    by (rule quad_inputs_value[OF g assms(8) pne assms(9,10,11) rect])
  have sites: "0 \<le> num_sample_sites l" "nat (num_sample_sites l) = length rows"
    using assms(3) by simp_all
  have "length (perturbed ms vs pts) \<noteq> nat (num_sample_sites l)"
    using power_neq_self[OF assms(4,5)] by (simp add: perturbed_length len sites)
  then have a: "append_other_inputs l (Tens (ten3 (perturbed ms vs pts))) other_inputs
           = Inl (RuntimeError ''Sizes of tensors must match except in dimension -1'')"
    using append_other_inputs_mismatch[OF sites(1) _ hd_perturbed_nonempty[OF pne assms(8,9)] _ assms(12)]
          pne by (simp add: perturbed_def)
  have "call_inputs e l (Dist (mat ms) (mat vs)) other_inputs b
             = Inl (RuntimeError ''Sizes of tensors must match except in dimension -1'')"
    by (simp add: call_inputs_def q a ebind_Inr ebind_Inl)
  moreover have "call_inputs e' l (Tens (ten3 (perturbed ms vs pts))) other_inputs b'
             = Inl (RuntimeError ''Sizes of tensors must match except in dimension -1'')"
    by (simp add: call_inputs_def quad_inputs_def a ebind_Inr ebind_Inl)
  ultimately show ?thesis
    using g len emap_expand[OF sites(1), of other_inputs] sites(2) by auto
qed

theorem other_inputs_site_mismatch_witness:
  "quad_grid env_optimized freegrid_2x2
     = Inr (Some (mat [[- 1, - 1], [- 1, 1], [1, - 1], [1, 1]])) \<and>
   emap (expand_other_input freegrid_2x2) [mat [[7]]] = Inr [Nd [mat [[7]], mat [[7]]]] \<and>
   call_inputs env_optimized freegrid_2x2 (Dist (mat [[10, 20]]) (mat [[1, 1]])) [mat [[7]]] True
     = Inl (RuntimeError ''Sizes of tensors must match except in dimension -1'') \<and>
   call_inputs env_default freegrid_2x2
       (Tens (ten3 [[[9, 19]], [[9, 21]], [[11, 19]], [[11, 21]]])) [mat [[7]]] True
     = Inl (RuntimeError ''Sizes of tensors must match except in dimension -1'')"
proof -
  from other_inputs_site_mismatch[of freegrid_2x2 "[[- 1, - 1], [1, 1]]" 2 env_optimized
          "[[10, 20]]" "[[1, 1]]" "[mat [[7]]]" True env_default True]
  obtain pts where
    p: "quad_grid env_optimized freegrid_2x2 = Inr (Some (mat pts))"
       "emap (expand_other_input freegrid_2x2) [mat [[7]]] = Inr [Nd [mat [[7]], mat [[7]]]]"
       "call_inputs env_optimized freegrid_2x2 (Dist (mat [[10, 20]]) (mat [[1, 1]])) [mat [[7]]] True
          = Inl (RuntimeError ''Sizes of tensors must match except in dimension -1'')"
       "call_inputs env_default freegrid_2x2 (Tens (ten3 (perturbed [[10, 20]] [[1, 1]] pts)))
          [mat [[7]]] True
          = Inl (RuntimeError ''Sizes of tensors must match except in dimension -1'')"
    by (auto simp: freegrid_2x2_def env_optimized_def numeral_2_eq_2)
  from p(1) have "mat pts = mat [[- 1, - 1], [- 1, 1], [1, - 1], [1, 1]]"
    by (simp add: grid_2x2)
  then have "pts = [[- 1, - 1], [- 1, 1], [1, - 1], [1, 1]]"
    by (simp add: mat_inject)
  with p show ?thesis by (simp add: perturbed_def)
qed

lemma other_inputs_freeform:
  "call_inputs env_default freeform_3x2 (Dist (mat [[10, 20]]) (mat [[1, 4]])) [mat [[7]]] True
     = Inr (Tens (ten3 [[[10, 22, 7]], [[12, 26, 7]], [[14, 30, 7]]]))"
proof -
  have g: "quad_grid env_default freeform_3x2 = Inr (Some (mat [[0, 1], [2, 3], [4, 5]]))"
    by (rule quad_grid_freeform) (simp_all add: freeform_3x2_def)
  have q: "quad_inputs env_default freeform_3x2 (Dist (mat [[10, 20]]) (mat [[1, 4]])) True
     = Inr (Tens (ten3 [[[10, 22]], [[12, 26]], [[14, 30]]]))"
    using quad_inputs_value[OF g, of "[[10, 20]]" "[[1, 4]]" 2 True] by (simp add: perturbed_def)
  have e: "expand_other_input freeform_3x2 (mat [[7]]) = Inr (Nd [mat [[7]], mat [[7]], mat [[7]]])"
    by (simp add: expand_other_input_def expand_leading_def freeform_3x2_def numeral_3_eq_3)
  have c: "cat_last [ten3 [[[10, 22]], [[12, 26]], [[14, 30]]], Nd [mat [[7]], mat [[7]], mat [[7]]]]
     = Inr (ten3 [[[10, 22, 7]], [[12, 26, 7]], [[14, 30, 7]]])"
    by (simp add: cat_last_def ten3_def mat_def vec_def)
  have d: "\<not> settings_debug env_default" by (simp add: env_default_def)
  show ?thesis
    using d by (simp add: call_inputs_def q ebind_Inr append_other_inputs_def e c debug_checks_def)
qed

end
